theory Spec2Isabelle
  imports Complex_Main "HOL-Library.Char_ord" "HOL-Library.List_Lexorder" "HOL-Library.Product_Lexorder"
begin

section \<open>Strings as the scripts use them\<close>

text \<open>
  Python strings are modelled as \<^typ>\<open>string\<close>. The helpers below are the string
  operations the harvester and the migration script apply to column labels and file names:
  the substring test \<^verbatim>\<open>a in b\<close>, \<^verbatim>\<open>startswith\<close>, \<^verbatim>\<open>endswith\<close>, \<^verbatim>\<open>strip\<close>,
  \<^verbatim>\<open>replace\<close>, \<^verbatim>\<open>split('_')[-1]\<close>, \<^verbatim>\<open>'_'.join\<close> and \<^verbatim>\<open>int\<close>.
\<close>

definition startswith :: "string \<Rightarrow> string \<Rightarrow> bool" where
  "startswith s p = (take (length p) s = p)"

definition endswith :: "string \<Rightarrow> string \<Rightarrow> bool" where
  "endswith s p = (length p \<le> length s \<and> drop (length s - length p) s = p)"

fun str_in :: "string \<Rightarrow> string \<Rightarrow> bool" where
  "str_in p [] = (p = [])"
| "str_in p (c # cs) = (startswith (c # cs) p \<or> str_in p cs)"

definition is_space :: "char \<Rightarrow> bool" where
  "is_space c = (c \<in> set [CHR '' '', CHR 0x09, CHR 0x0A, CHR 0x0B, CHR 0x0C, CHR 0x0D])"

definition strip :: "string \<Rightarrow> string" where
  "strip s = rev (dropWhile is_space (rev (dropWhile is_space s)))"

text \<open>\<^verbatim>\<open>s.replace(old, '')\<close> for a non-empty \<^verbatim>\<open>old\<close>: every occurrence, left to right.\<close>

fun remove_all :: "string \<Rightarrow> string \<Rightarrow> string" where
  "remove_all old [] = []"
| "remove_all old (c # cs) =
     (if old \<noteq> [] \<and> startswith (c # cs) old
      then remove_all old (drop (length old) (c # cs))
      else c # remove_all old cs)"

text \<open>\<^verbatim>\<open>s.split('_')[-1]\<close>: the text after the last underscore, the whole text without one.\<close>

definition last_segment :: "string \<Rightarrow> string" where
  "last_segment s = rev (takeWhile (\<lambda>c. c \<noteq> CHR ''_'') (rev s))"

fun join_with :: "string \<Rightarrow> string list \<Rightarrow> string" where
  "join_with sep [] = []"
| "join_with sep [s] = s"
| "join_with sep (s # t # ss) = s @ sep @ join_with sep (t # ss)"

definition is_digit :: "char \<Rightarrow> bool" where
  "is_digit c = (c \<in> set ''0123456789'')"

definition digit_val :: "char \<Rightarrow> nat" where
  "digit_val c = of_char c - 48"

definition digits_val :: "string \<Rightarrow> nat" where
  "digits_val s = foldl (\<lambda>a c. 10 * a + digit_val c) 0 s"

datatype error =
  ValueError | KeyError | IndexError | AttributeError | IntegrityError | OSError
  | TimeoutException | ParserError | OperationalError | TypeError

text \<open>
  \<^verbatim>\<open>int(s)\<close> on a text without underscores (the only texts the scripts pass to it are
  segments cut at underscores): surrounding white space and one sign are accepted, then
  at least one decimal digit and nothing else; anything else raises \<^verbatim>\<open>ValueError\<close>.
\<close>

definition py_int :: "string \<Rightarrow> error + int" where
  "py_int s =
     (let t = strip s;
          (neg, ds) = (case t of
                         c # r \<Rightarrow> if c = CHR ''-'' then (True, r)
                                  else if c = CHR ''+'' then (False, r) else (False, t)
                       | [] \<Rightarrow> (False, t))
      in if ds \<noteq> [] \<and> list_all is_digit ds
         then Inr (if neg then - int (digits_val ds) else int (digits_val ds))
         else Inl ValueError)"

section \<open>Parsed tables\<close>

text \<open>
  A frame is stored by column, as pandas stores it. A column has a dtype: numeric (numbers
  and the missing value) or \<^verbatim>\<open>object\<close> (texts and the missing value), which is how
  \<^verbatim>\<open>read_html\<close> and \<^verbatim>\<open>read_csv\<close> type what they parse. Floating-point numbers are
  idealised as rationals. \<open>n_rows\<close> is the length of the index, which every column of a
  well-formed frame shares. A column label is a plain text or, under a hierarchical
  header, a tuple of texts.
\<close>

datatype column = NumCol "rat option list" | ObjCol "string option list"

datatype label = Flat string | Multi "string list"

record 'l frame =
  n_rows :: nat
  cols :: "('l \<times> column) list"

text \<open>A single value, as it is handed to the database: number, text or missing.\<close>

datatype cell = Num rat | Txt string | NaN

fun col_cells :: "column \<Rightarrow> cell list" where
  "col_cells (NumCol vs) = map (\<lambda>v. case v of None \<Rightarrow> NaN | Some q \<Rightarrow> Num q) vs"
| "col_cells (ObjCol vs) = map (\<lambda>v. case v of None \<Rightarrow> NaN | Some s \<Rightarrow> Txt s) vs"

definition columns :: "'l frame \<Rightarrow> 'l list" where
  "columns df = map fst (cols df)"

definition shape0 :: "'l frame \<Rightarrow> nat" where
  "shape0 df = n_rows df"

definition shape1 :: "'l frame \<Rightarrow> nat" where
  "shape1 df = length (cols df)"

definition df_size :: "'l frame \<Rightarrow> nat" where
  "df_size df = n_rows df * length (cols df)"

definition wf_frame :: "'l frame \<Rightarrow> bool" where
  "wf_frame df = list_all (\<lambda>c. length (col_cells (snd c)) = n_rows df) (cols df)"

text \<open>
  \<^verbatim>\<open>str(col)\<close>: a plain label is itself; a tuple prints its quoted members between
  parentheses. The quoting written here is Python's for texts without quote, backslash
  or control characters.
\<close>

definition py_repr :: "string \<Rightarrow> string" where
  "py_repr s = CHR 0x27 # s @ [CHR 0x27]"

fun py_str :: "label \<Rightarrow> string" where
  "py_str (Flat s) = s"
| "py_str (Multi ss) =
     ''('' @ join_with '', '' (map py_repr ss) @ (if length ss = 1 then '','' else []) @ '')''"

section \<open>Table Extractor: choosing the data table\<close>

text \<open>
  \<^verbatim>\<open>s_no_found = any('S No' in str(col) or 'S. No' in str(col) for col in df.columns)\<close>
\<close>

definition s_no_found :: "label frame \<Rightarrow> bool" where
  "s_no_found df =
     list_ex (\<lambda>col. str_in ''S No'' (py_str col) \<or> str_in ''S. No'' (py_str col)) (columns df)"

text \<open>
  The selection loop of \<^verbatim>\<open>scrape_table_data_to_db\<close> and \<^verbatim>\<open>scrape_table_data\<close>
  (the two scrapers share it word for word). The first argument is \<^verbatim>\<open>best_df\<close>,
  \<open>None\<close> at the start; the first equation's \<open>Some df\<close> is the \<^verbatim>\<open>break\<close>.
\<close>

fun choose_best_df :: "label frame option \<Rightarrow> label frame list \<Rightarrow> label frame option" where
  "choose_best_df best [] = best"
| "choose_best_df best (df # rest) =
     (if s_no_found df \<and> shape0 df > 1 then Some df
      else if shape0 df > 1 \<and> shape1 df > 2 \<and>
              (case best of None \<Rightarrow> True | Some b \<Rightarrow> df_size df > df_size b)
           then choose_best_df (Some df) rest
           else choose_best_df best rest)"

text \<open>The two tests of the loop, named: rule (a) and the shape threshold of rule (b).\<close>

definition serial_rule :: "label frame \<Rightarrow> bool" where
  "serial_rule df = (s_no_found df \<and> shape0 df > 1)"

definition size_rule :: "label frame \<Rightarrow> bool" where
  "size_rule df = (shape0 df > 1 \<and> shape1 df > 2)"

text \<open>The literal reading of the serial-number rule: some label contains \<^verbatim>\<open>S No\<close>.\<close>

definition label_has_S_No :: "label frame \<Rightarrow> bool" where
  "label_has_S_No df = list_ex (\<lambda>col. str_in ''S No'' (py_str col)) (columns df)"

subsection \<open>Header flattening and value coercion\<close>

text \<open>
  \<^verbatim>\<open>isinstance(data_df.columns, pd.MultiIndex)\<close> holds when the labels are tuples. In the
  other branch \<^verbatim>\<open>col.strip()\<close> is called on every label, which a tuple does not have.
\<close>

definition is_multi :: "label \<Rightarrow> bool" where
  "is_multi l = (case l of Multi ss \<Rightarrow> True | Flat s \<Rightarrow> False)"

definition flatten_label :: "bool \<Rightarrow> label \<Rightarrow> error + string" where
  "flatten_label multi l =
     (case l of
        Multi ss \<Rightarrow> if multi then Inr (strip (join_with ''_'' ss)) else Inl AttributeError
      | Flat s \<Rightarrow> Inr (strip s))"

fun sequence :: "(error + 'a) list \<Rightarrow> error + 'a list" where
  "sequence [] = Inr []"
| "sequence (x # xs) =
     (case x of Inl e \<Rightarrow> Inl e
      | Inr v \<Rightarrow> (case sequence xs of Inl e \<Rightarrow> Inl e | Inr vs \<Rightarrow> Inr (v # vs)))"

definition flatten_columns :: "label frame \<Rightarrow> error + string frame" where
  "flatten_columns df =
     (let multi = (columns df \<noteq> [] \<and> list_all is_multi (columns df))
      in case sequence (map (flatten_label multi) (columns df)) of
           Inl e \<Rightarrow> Inl e
         | Inr ls \<Rightarrow> Inr \<lparr>n_rows = n_rows df, cols = zip ls (map snd (cols df))\<rparr>)"

text \<open>
  The numeric parser of pandas is a parameter \<open>parse\<close> of the model: \<open>None\<close> when the
  text is not a number, \<open>Some None\<close> when it reads as the missing value, \<open>Some (Some q)\<close>
  for a number. \<^verbatim>\<open>astype(str)\<close> prints the missing value of an object column as
  \<^verbatim>\<open>nan\<close>.
\<close>

type_synonym parser = "string \<Rightarrow> rat option option"

definition astype_str :: "string option \<Rightarrow> string" where
  "astype_str v = (case v of None \<Rightarrow> ''nan'' | Some s \<Rightarrow> s)"

definition clean_text :: "string \<Rightarrow> string" where
  "clean_text s = strip (filter (\<lambda>c. c \<noteq> CHR '','') s)"

text \<open>\<^verbatim>\<open>pd.to_numeric(col, errors='ignore')\<close>: all texts parse, or the column is left as it is.\<close>

definition to_numeric_ignore :: "parser \<Rightarrow> string list \<Rightarrow> column" where
  "to_numeric_ignore parse ss =
     (if list_all (\<lambda>s. parse s \<noteq> None) ss
      then NumCol (map (\<lambda>s. case parse s of Some v \<Rightarrow> v | None \<Rightarrow> None) ss)
      else ObjCol (map Some ss))"

definition clean_column :: "parser \<Rightarrow> column \<Rightarrow> column" where
  "clean_column parse c =
     (case c of
        NumCol vs \<Rightarrow> NumCol vs
      | ObjCol vs \<Rightarrow> to_numeric_ignore parse (map (\<lambda>v. clean_text (astype_str v)) vs))"

text \<open>
  The cleaning loop reads \<^verbatim>\<open>data_df[col].dtype\<close>; under a repeated label
  \<^verbatim>\<open>data_df[col]\<close> is a frame, which has no \<^verbatim>\<open>dtype\<close>.
\<close>

definition clean_columns :: "parser \<Rightarrow> string frame \<Rightarrow> error + string frame" where
  "clean_columns parse df =
     (if distinct (columns df)
      then Inr (df\<lparr>cols := map (\<lambda>(l, c). (l, clean_column parse c)) (cols df)\<rparr>)
      else Inl AttributeError)"

text \<open>\<^verbatim>\<open>pd.to_numeric(series, errors='coerce').fillna(0)\<close>, value by value.\<close>

definition to_numeric_coerce :: "parser \<Rightarrow> cell \<Rightarrow> cell" where
  "to_numeric_coerce parse c =
     (case c of
        Num q \<Rightarrow> Num q
      | NaN \<Rightarrow> NaN
      | Txt s \<Rightarrow> (case parse s of Some (Some q) \<Rightarrow> Num q | _ \<Rightarrow> NaN))"

definition fillna0 :: "cell \<Rightarrow> cell" where
  "fillna0 c = (case c of NaN \<Rightarrow> Num 0 | _ \<Rightarrow> c)"

section \<open>Persistence Store\<close>

text \<open>
  The two canonical tables. The surrogate \<^verbatim>\<open>id\<close> column is left out: no script reads
  or writes it. A table carries the constraints of its \<^verbatim>\<open>CREATE TABLE\<close> statement
  (\<^verbatim>\<open>NOT NULL\<close> on every column, \<^verbatim>\<open>UNIQUE\<close> on the natural key) when \<open>constrained\<close>
  holds; a table that pandas creates itself has none. SQLite's conversions between
  storage classes are not modelled: values are compared as they are handed over.
\<close>

record annual_row =
  Name :: cell
  DataType :: string
  Year :: int
  Registrations :: cell

record monthly_row =
  mName :: cell
  mDataType :: string
  mYear :: int
  Month :: string
  MonthlyRegistrations :: cell

definition annual_key :: "annual_row \<Rightarrow> cell \<times> string \<times> int" where
  "annual_key r = (Name r, DataType r, Year r)"

definition monthly_key :: "monthly_row \<Rightarrow> cell \<times> string \<times> int \<times> string" where
  "monthly_key r = (mName r, mDataType r, mYear r, Month r)"

definition annual_null :: "annual_row \<Rightarrow> bool" where
  "annual_null r = (Name r = NaN \<or> Registrations r = NaN)"

definition monthly_null :: "monthly_row \<Rightarrow> bool" where
  "monthly_null r = (mName r = NaN \<or> MonthlyRegistrations r = NaN)"

record 'r sql_table =
  constrained :: bool
  content :: "'r list"

record db =
  annual_registrations :: "annual_row sql_table option"
  monthly_registrations :: "monthly_row sql_table option"

definition created :: "'r sql_table" where
  "created = \<lparr>constrained = True, content = []\<rparr>"

text \<open>\<^verbatim>\<open>initialize_db\<close> of the scraper: \<^verbatim>\<open>CREATE TABLE IF NOT EXISTS\<close>, twice.\<close>

definition initialize_db :: "db \<Rightarrow> db" where
  "initialize_db d =
     \<lparr>annual_registrations =
        (case annual_registrations d of None \<Rightarrow> Some created | Some t \<Rightarrow> Some t),
      monthly_registrations =
        (case monthly_registrations d of None \<Rightarrow> Some created | Some t \<Rightarrow> Some t)\<rparr>"

text \<open>
  \<^verbatim>\<open>initialize_db\<close> of the migration script: \<^verbatim>\<open>DROP TABLE IF EXISTS\<close> for both tables,
  then the same two \<^verbatim>\<open>CREATE TABLE\<close> statements.
\<close>

definition initialize_db_migrate :: "db \<Rightarrow> db" where
  "initialize_db_migrate d =
     (let dropped = d\<lparr>annual_registrations := None, monthly_registrations := None\<rparr>
      in initialize_db dropped)"

datatype if_exists = Fail | Replace | Append

text \<open>
  \<^verbatim>\<open>DataFrame.to_sql(table, conn, if_exists=..., index=False)\<close>. The rows of one call go in
  one transaction, rolled back when any of them violates a constraint, so the write is
  all or nothing. A missing table is created from the frame, without constraints;
  \<^verbatim>\<open>'replace'\<close> drops the table and does the same; \<^verbatim>\<open>'fail'\<close> refuses an existing table.
\<close>

definition violates :: "('r \<Rightarrow> 'k) \<Rightarrow> ('r \<Rightarrow> bool) \<Rightarrow> 'r list \<Rightarrow> 'r list \<Rightarrow> bool" where
  "violates key nul old df =
     (list_ex nul df \<or> list_ex (\<lambda>r. key r \<in> set (map key old)) df \<or> \<not> distinct (map key df))"

definition to_sql ::
  "('r \<Rightarrow> 'k) \<Rightarrow> ('r \<Rightarrow> bool) \<Rightarrow> 'r list \<Rightarrow> 'r sql_table option \<Rightarrow> if_exists
     \<Rightarrow> error + 'r sql_table option" where
  "to_sql key nul df tbl mode =
     (case tbl of
        None \<Rightarrow> Inr (Some \<lparr>constrained = False, content = df\<rparr>)
      | Some t \<Rightarrow>
          (case mode of
             Fail \<Rightarrow> Inl ValueError
           | Replace \<Rightarrow> Inr (Some \<lparr>constrained = False, content = df\<rparr>)
           | Append \<Rightarrow>
               if constrained t \<and> violates key nul (content t) df then Inl IntegrityError
               else Inr (Some (t\<lparr>content := content t @ df\<rparr>))))"

datatype insert_log = NoData | Inserted nat | IntegrityLogged | ErrorLogged error

text \<open>
  \<^verbatim>\<open>insert_data_into_db(df, table_name, if_exists='append')\<close>. \<open>connect\<close> is the outcome
  of \<^verbatim>\<open>sqlite3.connect(DB_FILE)\<close>: \<open>None\<close> when the connection opens, else the exception
  the call raises. The call stands after the test for an empty frame and before the
  \<^verbatim>\<open>try\<close>, so its exception leaves the function: the result is \<open>Inl\<close>. What
  \<^verbatim>\<open>to_sql\<close> raises is caught by one of the two handlers and only logged.
\<close>

definition insert_data_into_db ::
  "error option \<Rightarrow> ('r \<Rightarrow> 'k) \<Rightarrow> ('r \<Rightarrow> bool) \<Rightarrow> 'r list \<Rightarrow> 'r sql_table option
     \<Rightarrow> if_exists \<Rightarrow> error + ('r sql_table option \<times> insert_log)" where
  "insert_data_into_db connect key nul df tbl mode =
     (if df = [] then Inr (tbl, NoData)
      else case connect of
             Some e \<Rightarrow> Inl e
           | None \<Rightarrow>
               (case to_sql key nul df tbl mode of
                  Inr tbl' \<Rightarrow> Inr (tbl', Inserted (length df))
                | Inl IntegrityError \<Rightarrow> Inr (tbl, IntegrityLogged)
                | Inl e \<Rightarrow> Inr (tbl, ErrorLogged e)))"

definition unique_keys :: "('r \<Rightarrow> 'k) \<Rightarrow> 'r sql_table option \<Rightarrow> bool" where
  "unique_keys key tbl = (case tbl of None \<Rightarrow> True | Some t \<Rightarrow> distinct (map key (content t)))"

section \<open>Record Normalizer of the SQL scraper\<close>

text \<open>\<^verbatim>\<open>re.compile(r'Calendar Year_(\d{4})').match(col)\<close>: the pattern is tried at the start.\<close>

definition cal_year_match :: "string \<Rightarrow> bool" where
  "cal_year_match col =
     (startswith col ''Calendar Year_'' \<and> length col \<ge> 18 \<and> list_all is_digit (take 4 (drop 14 col)))"

text \<open>\<^verbatim>\<open>data_df.iloc[:, 1]\<close>: the second column, by position.\<close>

definition iloc1 :: "string frame \<Rightarrow> error + column" where
  "iloc1 df = (if length (cols df) > 1 then Inr (snd (cols df ! 1)) else Inl IndexError)"

text \<open>
  The frame built in the \<^verbatim>\<open>Calendar Year\<close> branch: \<^verbatim>\<open>year_col_name\<close> is the first label
  the pattern matches, and only that column is read.
\<close>

definition annual_df_to_insert :: "string frame \<Rightarrow> string \<Rightarrow> string \<Rightarrow> error + annual_row list" where
  "annual_df_to_insert data_df y_axis_option year_col_name =
     (case iloc1 data_df of
        Inl e \<Rightarrow> Inl e
      | Inr name_col \<Rightarrow>
          (case py_int (last_segment year_col_name) of
             Inl e \<Rightarrow> Inl e
           | Inr y \<Rightarrow>
               (case map_of (cols data_df) year_col_name of
                  None \<Rightarrow> Inl KeyError
                | Some regs \<Rightarrow>
                    Inr (map (\<lambda>(n, v). \<lparr>Name = n, DataType = y_axis_option, Year = y,
                                        Registrations = v\<rparr>)
                           (zip (col_cells name_col) (col_cells regs))))))"

definition month_cols :: "string frame \<Rightarrow> (string \<times> column) list" where
  "month_cols df = filter (\<lambda>c. str_in ''Month Wise_'' (fst c)) (cols df)"

text \<open>
  The frame built in the \<^verbatim>\<open>Month Wise\<close> branch: \<^verbatim>\<open>melt\<close> with the identifier columns
  \<^verbatim>\<open>S No_S No\<close> and \<^verbatim>\<open>Name\<close> (a \<^verbatim>\<open>KeyError\<close> when one is absent) lists, for each
  month column in turn, every row; the month is the label without \<^verbatim>\<open>Month Wise_\<close>.
\<close>

definition melt_month ::
  "parser \<Rightarrow> string \<Rightarrow> int \<Rightarrow> cell list \<Rightarrow> string \<times> column \<Rightarrow> monthly_row list" where
  "melt_month parse y_axis_option year_val names mc =
     map (\<lambda>(n, v). \<lparr>mName = n, mDataType = y_axis_option, mYear = year_val,
                     Month = remove_all ''Month Wise_'' (fst mc),
                     MonthlyRegistrations = fillna0 (to_numeric_coerce parse v)\<rparr>)
       (zip names (col_cells (snd mc)))"

definition monthly_df_to_insert ::
  "parser \<Rightarrow> string frame \<Rightarrow> string \<Rightarrow> int \<Rightarrow> error + monthly_row list" where
  "monthly_df_to_insert parse data_df y_axis_option year_val =
     (case map_of (cols data_df) ''S No_S No'' of
        None \<Rightarrow> Inl KeyError
      | Some sno \<Rightarrow>
          (case map_of (cols data_df) ''Name'' of
             None \<Rightarrow> Inl KeyError
           | Some name_col \<Rightarrow>
               Inr (concat (map (melt_month parse y_axis_option year_val (col_cells name_col))
                              (month_cols data_df)))))"

text \<open>
  Lines 329 to 363 of the scraper: the branch on \<^verbatim>\<open>x_axis_option\<close>, each ending in
  \<^verbatim>\<open>insert_data_into_db(df_to_insert, ..., if_exists='append')\<close>. \<open>connect\<close> is the
  outcome of the connection that call opens.
\<close>

definition persist_scraped ::
  "parser \<Rightarrow> error option \<Rightarrow> string frame \<Rightarrow> string \<Rightarrow> string \<Rightarrow> int \<Rightarrow> db
     \<Rightarrow> error + db" where
  "persist_scraped parse connect data_df y_axis_option x_axis_option year_val d =
     (if x_axis_option = ''Calendar Year'' then
        (case find cal_year_match (columns data_df) of
           None \<Rightarrow> Inr d
         | Some year_col_name \<Rightarrow>
             (case annual_df_to_insert data_df y_axis_option year_col_name of
                Inl e \<Rightarrow> Inl e
              | Inr df \<Rightarrow>
                  (case insert_data_into_db connect annual_key annual_null df
                          (annual_registrations d) Append of
                     Inl e \<Rightarrow> Inl e
                   | Inr r \<Rightarrow> Inr (d\<lparr>annual_registrations := fst r\<rparr>))))
      else if x_axis_option = ''Month Wise'' then
        (if ''Name'' \<in> set (columns data_df) \<and> month_cols data_df \<noteq> [] then
           (case monthly_df_to_insert parse data_df y_axis_option year_val of
              Inl e \<Rightarrow> Inl e
            | Inr df \<Rightarrow>
                (case insert_data_into_db connect monthly_key monthly_null df
                        (monthly_registrations d) Append of
                   Inl e \<Rightarrow> Inl e
                 | Inr r \<Rightarrow> Inr (d\<lparr>monthly_registrations := fst r\<rparr>)))
         else Inr d)
      else Inr d)"

datatype scrape_log = DataSaved | NoUsableTable | NoTablesAtAll | ScrapeFailed error

text \<open>
  \<^verbatim>\<open>scrape_table_data_to_db\<close>. \<open>page\<close> is what the waits on the page and \<^verbatim>\<open>pd.read_html\<close>
  deliver: the parsed tables, or the exception one of them raised; \<open>connect\<close> is the
  outcome of the connection \<^verbatim>\<open>insert_data_into_db\<close> opens. The whole body stands in
  one \<^verbatim>\<open>try\<close> whose handler prints and returns, so every \<open>Inl\<close>, that of a failed
  connection included, ends as \<open>ScrapeFailed\<close> with the database as it was.
\<close>

definition scrape_table_data_to_db ::
  "parser \<Rightarrow> error option \<Rightarrow> error + label frame list \<Rightarrow> string \<Rightarrow> string \<Rightarrow> int \<Rightarrow> db
     \<Rightarrow> db \<times> scrape_log" where
  "scrape_table_data_to_db parse connect page y_axis_option x_axis_option year_val d =
     (case page of
        Inl e \<Rightarrow> (d, ScrapeFailed e)
      | Inr tables \<Rightarrow>
          if tables = [] then (d, NoTablesAtAll)
          else
            (case choose_best_df None tables of
               None \<Rightarrow> (d, NoUsableTable)
             | Some best_df \<Rightarrow>
                 (case flatten_columns best_df of
                    Inl e \<Rightarrow> (d, ScrapeFailed e)
                  | Inr flat \<Rightarrow>
                      (case clean_columns parse flat of
                         Inl e \<Rightarrow> (d, ScrapeFailed e)
                       | Inr data_df \<Rightarrow>
                           (case persist_scraped parse connect data_df y_axis_option
                                   x_axis_option year_val d of
                              Inl e \<Rightarrow> (d, ScrapeFailed e)
                            | Inr d' \<Rightarrow> (d', DataSaved))))))"

section \<open>CSV-to-SQL migration\<close>

text \<open>
  The data directory is what \<^verbatim>\<open>os.listdir\<close> and \<^verbatim>\<open>pd.read_csv\<close> deliver: \<open>None\<close> when
  the directory does not exist, else the file names in listing order, each with the frame
  read from it or the exception the read raised.
\<close>

type_synonym csv_file = "string \<times> (error + string frame)"

definition is_calendar_year_file :: "string \<Rightarrow> bool" where
  "is_calendar_year_file f =
     (startswith f ''Y_'' \<and> str_in ''X_Calendar_Year_Year_'' f \<and> endswith f ''.csv'')"

definition is_month_wise_file :: "string \<Rightarrow> bool" where
  "is_month_wise_file f =
     (startswith f ''Y_'' \<and> str_in ''X_Month_Wise_Year_'' f \<and> endswith f ''.csv'')"

definition df_type_of :: "string \<Rightarrow> string" where
  "df_type_of file =
     (if str_in ''Y_Vehicle_Category_'' file then ''Vehicle Category'' else ''Manufacturer'')"

text \<open>\<^verbatim>\<open>df.rename(columns={col: 'Name' for col in df.columns if ... in col})\<close>\<close>

definition rename_name :: "string \<Rightarrow> string frame \<Rightarrow> string frame" where
  "rename_name df_type df =
     (let pat = (if df_type = ''Manufacturer'' then ''Maker_Maker''
                 else ''Vehicle Category_Vehicle Category'')
      in df\<lparr>cols := map (\<lambda>(l, c). (if str_in pat l then ''Name'' else l, c)) (cols df)\<rparr>)"

text \<open>\<^verbatim>\<open>str.extract(r'(\d{4})')\<close>: the first four consecutive digits of the label.\<close>

fun extract_d4 :: "string \<Rightarrow> string option" where
  "extract_d4 [] = None"
| "extract_d4 (c # cs) =
     (if length (c # cs) \<ge> 4 \<and> list_all is_digit (take 4 (c # cs)) then Some (take 4 (c # cs))
      else extract_d4 cs)"

definition extract_year :: "string \<Rightarrow> error + int" where
  "extract_year l = (case extract_d4 l of None \<Rightarrow> Inl ValueError | Some ds \<Rightarrow> py_int ds)"

text \<open>\<^verbatim>\<open>re.search(r'Year_(\d{4})\.csv', file)\<close>: the leftmost place where the pattern fits.\<close>

definition year_csv_at :: "string \<Rightarrow> bool" where
  "year_csv_at s =
     (startswith s ''Year_'' \<and> length s \<ge> 13 \<and> list_all is_digit (take 4 (drop 5 s)) \<and>
      take 4 (drop 9 s) = ''.csv'')"

fun search_year_csv :: "string \<Rightarrow> string option" where
  "search_year_csv [] = None"
| "search_year_csv (c # cs) =
     (if year_csv_at (c # cs) then Some (take 4 (drop 5 (c # cs))) else search_year_csv cs)"

definition positive :: "cell \<Rightarrow> bool" where
  "positive c = (case c of Num q \<Rightarrow> q > 0 | _ \<Rightarrow> False)"

text \<open>
  One year column melted: a row for every entity row, the year read from the label, the
  value coerced as \<^verbatim>\<open>pd.to_numeric(..., errors='coerce').fillna(0)\<close> does.
\<close>

definition melt_year ::
  "parser \<Rightarrow> string \<Rightarrow> cell list \<Rightarrow> string \<times> column \<Rightarrow> error + annual_row list" where
  "melt_year parse df_type names yc =
     (case extract_year (fst yc) of
        Inl e \<Rightarrow> Inl e
      | Inr y \<Rightarrow>
          Inr (map (\<lambda>(n, v). \<lparr>Name = n, DataType = df_type, Year = y,
                              Registrations = fillna0 (to_numeric_coerce parse v)\<rparr>)
                 (zip names (col_cells (snd yc)))))"

text \<open>
  The body of the \<^verbatim>\<open>try\<close> for one calendar-year file, up to the filtered
  \<^verbatim>\<open>df_to_insert\<close>; the branches that only print give no rows. When the renaming leaves
  two columns called \<^verbatim>\<open>Name\<close>, building the frame raises.
\<close>

definition migrate_annual_batch :: "parser \<Rightarrow> csv_file \<Rightarrow> error + annual_row list" where
  "migrate_annual_batch parse f =
     (case snd f of
        Inl e \<Rightarrow> Inl e
      | Inr df0 \<Rightarrow>
          (let df_type = df_type_of (fst f);
               df = rename_name df_type df0;
               year_cols = filter (\<lambda>c. cal_year_match (fst c)) (cols df)
           in if ''Name'' \<notin> set (columns df) then Inr []
              else if year_cols = [] then Inr []
              else if count_list (columns df) ''Name'' > 1 then Inl ValueError
              else
                (case map_of (cols df) ''Name'' of
                   None \<Rightarrow> Inl KeyError
                 | Some name_col \<Rightarrow>
                     (case sequence (map (melt_year parse df_type (col_cells name_col)) year_cols) of
                        Inl e \<Rightarrow> Inl e
                      | Inr melted \<Rightarrow>
                          Inr (filter (\<lambda>r. Name r \<noteq> NaN \<and> positive (Registrations r))
                                 (concat melted))))))"

definition migrate_annual_file :: "parser \<Rightarrow> db \<Rightarrow> csv_file \<Rightarrow> db" where
  "migrate_annual_file parse d f =
     (case migrate_annual_batch parse f of
        Inl e \<Rightarrow> d
      | Inr df_to_insert \<Rightarrow>
          if df_to_insert = [] then d
          else
            (case to_sql annual_key annual_null df_to_insert (annual_registrations d) Append of
               Inl e \<Rightarrow> d
             | Inr t \<Rightarrow> d\<lparr>annual_registrations := t\<rparr>))"

definition migrate_monthly_batch :: "parser \<Rightarrow> csv_file \<Rightarrow> error + monthly_row list" where
  "migrate_monthly_batch parse f =
     (case snd f of
        Inl e \<Rightarrow> Inl e
      | Inr df0 \<Rightarrow>
          (let df_type = df_type_of (fst f)
           in case search_year_csv (fst f) of
                None \<Rightarrow> Inr []
              | Some ds \<Rightarrow>
                  (case py_int ds of
                     Inl e \<Rightarrow> Inl e
                   | Inr year \<Rightarrow>
                       (let df = rename_name df_type df0
                        in if ''Name'' \<in> set (columns df) \<and> month_cols df \<noteq> [] then
                             (if count_list (columns df) ''Name'' > 1 then Inl ValueError
                              else
                                (case map_of (cols df) ''Name'' of
                                   None \<Rightarrow> Inl KeyError
                                 | Some name_col \<Rightarrow>
                                     Inr (filter (\<lambda>r. mName r \<noteq> NaN \<and>
                                                    positive (MonthlyRegistrations r))
                                            (concat (map (melt_month parse df_type year
                                                            (col_cells name_col))
                                                       (month_cols df))))))
                           else Inr []))))"

definition migrate_monthly_file :: "parser \<Rightarrow> db \<Rightarrow> csv_file \<Rightarrow> db" where
  "migrate_monthly_file parse d f =
     (case migrate_monthly_batch parse f of
        Inl e \<Rightarrow> d
      | Inr df_to_insert \<Rightarrow>
          if df_to_insert = [] then d
          else
            (case to_sql monthly_key monthly_null df_to_insert (monthly_registrations d) Append of
               Inl e \<Rightarrow> d
             | Inr t \<Rightarrow> d\<lparr>monthly_registrations := t\<rparr>))"

text \<open>
  \<^verbatim>\<open>migrate_csvs\<close>: nothing happens without the data directory; otherwise the schema is
  dropped and created, then the calendar-year files and the month-wise files are migrated
  in listing order.
\<close>

definition migrate_csvs :: "parser \<Rightarrow> csv_file list option \<Rightarrow> db \<Rightarrow> db" where
  "migrate_csvs parse data_dir d =
     (case data_dir of
        None \<Rightarrow> d
      | Some listing \<Rightarrow>
          (let d0 = initialize_db_migrate d;
               d1 = foldl (migrate_annual_file parse) d0
                      (filter (\<lambda>f. is_calendar_year_file (fst f)) listing)
           in foldl (migrate_monthly_file parse) d1
                (filter (\<lambda>f. is_month_wise_file (fst f)) listing)))"

text \<open>
  The script's entry point creates the data directory when it is missing and then calls
  \<^verbatim>\<open>migrate_csvs\<close>.
\<close>

definition migrate_main :: "parser \<Rightarrow> csv_file list option \<Rightarrow> db \<Rightarrow> db" where
  "migrate_main parse data_dir d =
     migrate_csvs parse (Some (case data_dir of None \<Rightarrow> [] | Some listing \<Rightarrow> listing)) d"

text \<open>What \<^verbatim>\<open>SELECT * FROM\<close> a table returns: its rows, none when the table is missing.\<close>

definition annual_rows :: "db \<Rightarrow> annual_row list" where
  "annual_rows d = (case annual_registrations d of None \<Rightarrow> [] | Some t \<Rightarrow> content t)"

definition monthly_rows :: "db \<Rightarrow> monthly_row list" where
  "monthly_rows d = (case monthly_registrations d of None \<Rightarrow> [] | Some t \<Rightarrow> content t)"

section \<open>Sample inputs\<close>

text \<open>Concrete tables and rows on which the theorems below are exercised.\<close>

definition t_serial_dot :: "label frame" where
  "t_serial_dot =
     \<lparr>n_rows = 2,
      cols = [(Flat ''S. No'', NumCol [Some 1, Some 2]),
              (Flat ''Name'', ObjCol [Some ''A'', Some ''B''])]\<rparr>"

definition t_serial :: "label frame" where
  "t_serial =
     \<lparr>n_rows = 3,
      cols = [(Flat ''S No'', NumCol [Some 1, Some 2, Some 3]),
              (Flat ''Name'', ObjCol [Some ''A'', Some ''B'', Some ''C''])]\<rparr>"

definition t_big :: "label frame" where
  "t_big =
     \<lparr>n_rows = 3,
      cols = [(Flat ''x'', NumCol [Some 1, Some 2, Some 3]),
              (Flat ''y'', NumCol [Some 1, Some 2, Some 3]),
              (Flat ''z'', NumCol [Some 1, Some 2, Some 3])]\<rparr>"

definition t_small :: "label frame" where
  "t_small =
     \<lparr>n_rows = 2,
      cols = [(Flat ''x'', NumCol [Some 1, Some 2]),
              (Flat ''y'', NumCol [Some 1, Some 2]),
              (Flat ''z'', NumCol [Some 1, Some 2])]\<rparr>"

definition honda_100 :: annual_row where
  "honda_100 = \<lparr>Name = Txt ''HONDA'', DataType = ''Maker'', Year = 2021, Registrations = Num 100\<rparr>"

definition honda_200 :: annual_row where
  "honda_200 = \<lparr>Name = Txt ''HONDA'', DataType = ''Maker'', Year = 2021, Registrations = Num 200\<rparr>"

definition tata_50 :: annual_row where
  "tata_50 = \<lparr>Name = Txt ''TATA'', DataType = ''Maker'', Year = 2021, Registrations = Num 50\<rparr>"

definition honda_table :: "annual_row sql_table" where
  "honda_table = \<lparr>constrained = True, content = [honda_100]\<rparr>"

text \<open>
  The wide table of the Calendar Year example: five labelled columns, two data rows.
\<close>

definition wide_table :: "column \<Rightarrow> column \<Rightarrow> column \<Rightarrow> column \<Rightarrow> column \<Rightarrow> string frame" where
  "wide_table sno names y21 y22 tot =
     \<lparr>n_rows = 2,
      cols = [(''S No'', sno), (''Name'', names), (''Calendar Year_2021'', y21),
              (''Calendar Year_2022'', y22), (''TOTAL'', tot)]\<rparr>"

text \<open>A stand-in for the numeric parser: non-empty digit strings are numbers.\<close>

definition sample_parse :: parser where
  "sample_parse s =
     (if s \<noteq> [] \<and> list_all is_digit s then Some (Some (of_nat (digits_val s))) else None)"

definition fresh_db :: db where
  "fresh_db = \<lparr>annual_registrations = None, monthly_registrations = None\<rparr>"

definition wide_sample :: "string frame" where
  "wide_sample =
     wide_table (NumCol [Some 1, Some 2]) (ObjCol [Some ''HONDA'', Some ''TATA''])
       (NumCol [Some 10, Some 20]) (NumCol [Some 30, Some 40]) (NumCol [Some 40, Some 60])"

definition wide_zero :: "string frame" where
  "wide_zero =
     wide_table (NumCol [Some 1, Some 2]) (ObjCol [Some ''HONDA'', Some ''TATA''])
       (NumCol [Some 10, Some 20]) (NumCol [Some 30, Some 0]) (NumCol [Some 40, Some 20])"

definition month_df :: "string frame" where
  "month_df =
     \<lparr>n_rows = 2,
      cols = [(''S No_S No'', NumCol [Some 1, Some 2]),
              (''Name'', ObjCol [Some ''HONDA'', Some ''TATA'']),
              (''Month Wise_JAN'', NumCol [Some 10, None]),
              (''Month Wise_FEB'', ObjCol [Some ''n/a'', Some ''7''])]\<rparr>"

definition year_page :: "label frame" where
  "year_page =
     \<lparr>n_rows = 2,
      cols = [(Multi [''S No'', ''S No''], NumCol [Some 1, Some 2]),
              (Multi [''Maker'', ''Maker''], ObjCol [Some ''HONDA'', Some ''TATA'']),
              (Multi [''Calendar Year'', ''2021''], NumCol [Some 0, Some 5]),
              (Multi [''TOTAL'', ''TOTAL''], NumCol [Some 0, Some 5])]\<rparr>"

definition cy_file :: string where
  "cy_file = ''Y_Maker_X_Calendar_Year_Year_2021.csv''"

text \<open>
  A run of the scraper, as far as the database sees it: \<^verbatim>\<open>main\<close> calls
  \<^verbatim>\<open>initialize_db\<close> and every later write is a call of \<^verbatim>\<open>scrape_table_data_to_db\<close>,
  one for each combination the sweep reaches. A step lists the arguments of such a call,
  the outcome of its database connection first.
\<close>

type_synonym scrape_call =
  "error option \<times> (error + label frame list) \<times> string \<times> string \<times> int"

definition scrape_call :: "parser \<Rightarrow> db \<Rightarrow> scrape_call \<Rightarrow> db" where
  "scrape_call parse d c =
     (case c of (connect, page, y_axis_option, x_axis_option, year_val) \<Rightarrow>
        fst (scrape_table_data_to_db parse connect page y_axis_option x_axis_option year_val d))"

definition scraper_run :: "parser \<Rightarrow> scrape_call list \<Rightarrow> db \<Rightarrow> db" where
  "scraper_run parse calls d = foldl (scrape_call parse) (initialize_db d) calls"

text \<open>
  The database states the two programs can produce, starting from a new database file:
  any number of scraper runs, complete or cut short, and migrations, in any order.
\<close>

inductive reachable :: "parser \<Rightarrow> db \<Rightarrow> bool" for parse :: parser where
  new_file: "reachable parse fresh_db"
| scraper: "reachable parse d \<Longrightarrow> reachable parse (scraper_run parse calls d)"
| migration: "reachable parse d \<Longrightarrow> reachable parse (migrate_main parse data_dir d)"

definition table_ok :: "('r \<Rightarrow> 'k) \<Rightarrow> 'r sql_table option \<Rightarrow> bool" where
  "table_ok key tbl =
     (case tbl of None \<Rightarrow> True | Some t \<Rightarrow> constrained t \<and> distinct (map key (content t)))"

definition db_ok :: "db \<Rightarrow> bool" where
  "db_ok d = (table_ok annual_key (annual_registrations d) \<and>
              table_ok monthly_key (monthly_registrations d))"

definition two_calls :: "scrape_call list" where
  "two_calls = [(None, Inr [year_page], ''Maker'', ''Calendar Year'', 2021),
                (None, Inr [year_page], ''Maker'', ''Calendar Year'', 2021)]"

definition db_ready :: "db \<Rightarrow> bool" where
  "db_ready d = (annual_registrations d \<noteq> None \<and> monthly_registrations d \<noteq> None \<and> db_ok d)"

text \<open>
  \<^verbatim>\<open>calculate_yoy_growth\<close> and \<^verbatim>\<open>calculate_qoq_growth\<close> run the same steps on different
  period keys: sum the values by (entity, period), sort by (entity, period), shift the
  sums by one row within each entity, compute the percentage change, replace an infinite
  change by the missing value and round to two places. Floating-point values are
  idealised as rationals; a missing value counts as 0 in the sums, as \<^verbatim>\<open>sum\<close> and
  \<^verbatim>\<open>fillna(0)\<close> make it.
\<close>

record ('g, 'p) growth_row =
  grp :: 'g
  period :: 'p
  total :: rat
  prev :: "rat option"
  growth :: "rat option"

text \<open>\<^verbatim>\<open>df.groupby(keys)[col].sum().reset_index()\<close>: one row per key, keys ascending.\<close>

definition groupby_sum :: "('k::linorder \<times> rat) list \<Rightarrow> ('k \<times> rat) list" where
  "groupby_sum obs =
     map (\<lambda>k. (k, sum_list (map snd (filter (\<lambda>r. fst r = k) obs)))) (sort (remdups (map fst obs)))"

text \<open>
  \<^verbatim>\<open>groupby([group_col])[col].shift(1)\<close>: each row is paired with the value of the nearest
  earlier row of its entity; \<open>seen\<close> lists the earlier rows, nearest first. The first row
  of an entity gets the missing value \<open>None\<close>.
\<close>

fun shifted :: "('g \<times> rat) list \<Rightarrow> (('g \<times> 'p) \<times> rat) list \<Rightarrow> ((('g \<times> 'p) \<times> rat) \<times> rat option) list" where
  "shifted seen [] = []"
| "shifted seen (((g, p), v) # rest) = (((g, p), v), map_of seen g) # shifted ((g, v) # seen) rest"

text \<open>\<^verbatim>\<open>round(2)\<close>: to the nearest hundredth, a tie to the even neighbour.\<close>

definition rint :: "rat \<Rightarrow> int" where
  "rint x =
     (let f = \<lfloor>x\<rfloor>; d = x - of_int f
      in if d < 1 / 2 then f else if 1 / 2 < d then f + 1 else if even f then f else f + 1)"

definition round2 :: "rat \<Rightarrow> rat" where
  "round2 x = of_int (rint (x * 100)) / 100"

text \<open>
  A value of the float column \<^verbatim>\<open>((cur - prev) / prev) * 100\<close>: a number, an infinity, or
  \<^verbatim>\<open>NaN\<close>. A row without a previous value gives \<^verbatim>\<open>NaN\<close>; a previous value of zero gives
  an infinity, or \<^verbatim>\<open>NaN\<close> when the current value is zero as well.
\<close>

datatype quotient = Number rat | Infinity | NotANumber

definition pct_change :: "rat \<Rightarrow> rat option \<Rightarrow> quotient" where
  "pct_change cur pv =
     (case pv of
        None \<Rightarrow> NotANumber
      | Some b \<Rightarrow>
          if b = 0 then (if cur = 0 then NotANumber else Infinity)
          else Number ((cur - b) / b * 100))"

text \<open>
  \<^verbatim>\<open>pd.to_numeric(series, errors='coerce').replace([inf, -inf], pd.NA).round(2)\<close>. On a
  column without an infinity \<^verbatim>\<open>replace\<close> changes nothing and \<^verbatim>\<open>round\<close> rounds every
  number of the float column. With an infinity in the column, \<^verbatim>\<open>replace\<close> writes
  \<^verbatim>\<open>pd.NA\<close> into it, the column is no float column any more, and what \<^verbatim>\<open>round(2)\<close>
  does with it is the library's: \<open>na_round\<close> is \<open>Inl e\<close> when it raises \<open>e\<close>, and \<open>Inr f\<close>
  when it returns the column with every number \<open>x\<close> as \<open>f x\<close>. The missing values stay
  missing.
\<close>

type_synonym na_round = "error + (rat \<Rightarrow> rat)"

definition rounded :: "(rat \<Rightarrow> rat) \<Rightarrow> quotient \<Rightarrow> rat option" where
  "rounded f q = (case q of Number x \<Rightarrow> Some (f x) | Infinity \<Rightarrow> None | NotANumber \<Rightarrow> None)"

text \<open>Whether the column of changes holds an infinity.\<close>

definition infinite_change :: "(('g::linorder \<times> 'p::linorder) \<times> rat) list \<Rightarrow> bool" where
  "infinite_change obs =
     list_ex (\<lambda>((k, v), pv). pct_change v pv = Infinity)
       (shifted [] (sort_key fst (groupby_sum obs)))"

text \<open>The frame returned when the numbers of the growth column went through \<open>f\<close>.\<close>

definition growth_rows ::
  "(rat \<Rightarrow> rat) \<Rightarrow> (('g::linorder \<times> 'p::linorder) \<times> rat) list \<Rightarrow> ('g, 'p) growth_row list" where
  "growth_rows f obs =
     map (\<lambda>((k, v), pv). \<lparr>grp = fst k, period = snd k, total = v, prev = pv,
                            growth = rounded f (pct_change v pv)\<rparr>)
       (shifted [] (sort_key fst (groupby_sum obs)))"

definition growth_table ::
  "na_round \<Rightarrow> (('g::linorder \<times> 'p::linorder) \<times> rat) list \<Rightarrow> error + ('g, 'p) growth_row list" where
  "growth_table na_round obs =
     (if infinite_change obs then
        (case na_round of Inl e \<Rightarrow> Inl e | Inr f \<Rightarrow> Inr (growth_rows f obs))
      else Inr (growth_rows round2 obs))"

record annual_obs =
  MappedName :: string
  obs_Year :: int
  obs_Registrations :: rat


text \<open>
  The rows of the result carry \<^verbatim>\<open>Registrations\<close>, \<^verbatim>\<open>PrevYearRegistrations\<close> and
  \<^verbatim>\<open>YoYGrowth\<close> as \<open>total\<close>, \<open>prev\<close> and \<open>growth\<close>.
\<close>

definition calculate_yoy_growth ::
  "na_round \<Rightarrow> annual_obs list \<Rightarrow> error + (string, int) growth_row list" where
  "calculate_yoy_growth na_round df_annual =
     growth_table na_round
       (map (\<lambda>r. ((MappedName r, obs_Year r), obs_Registrations r)) df_annual)"





definition zero_baseline :: "annual_obs list" where
  "zero_baseline = [\<lparr>MappedName = ''A'', obs_Year = 2021, obs_Registrations = 0\<rparr>,
                    \<lparr>MappedName = ''A'', obs_Year = 2022, obs_Registrations = 5\<rparr>]"


text \<open>\<^verbatim>\<open>str(y)\<close> for a year: its decimal digits.\<close>

function str_nat :: "nat \<Rightarrow> string" where
  "str_nat n =
     (if n < 10 then [''0123456789'' ! n]
      else str_nat (n div 10) @ [''0123456789'' ! (n mod 10)])"
  by pat_completeness auto
termination
  by (relation "measure id") auto

declare str_nat.simps [simp del]

text \<open>\<^verbatim>\<open>[str(y) for y in range(2016, datetime.now().year + 1)]\<close>\<close>

definition target_years :: "nat \<Rightarrow> string list" where
  "target_years current_year = map str_nat [2016 ..< current_year + 1]"

text \<open>
  What the browser does while one year is processed. Each field is the outcome of one
  guarded block of the source: \<open>None\<close> when the block ran through, else the exception a
  wait or a click raised. \<open>backup_dir\<close> is the \<^verbatim>\<open>os.makedirs\<close> call of
  \<^verbatim>\<open>save_html_backup\<close>, which stands outside that function's \<^verbatim>\<open>try\<close>; \<open>page_found\<close> is
  what \<^verbatim>\<open>scrape_table_data_to_db\<close> finds and \<open>db_connect\<close> the outcome of the database
  connection it opens for the insert.
\<close>

record combo_env =
  select_outcome :: "error option"
  refresh_outcome :: "error option"
  backup_dir :: "error option"
  page_found :: "error + label frame list"
  db_connect :: "error option"
  unselect_outcome :: "error option"

text \<open>\<^verbatim>\<open>select_dropdown_option\<close>: its whole body is one \<^verbatim>\<open>try\<close>; \<^verbatim>\<open>False\<close> on any exception.\<close>

definition select_dropdown_option :: "error option \<Rightarrow> bool" where
  "select_dropdown_option outcome = (outcome = None)"

definition save_html_backup :: "error option \<Rightarrow> error + unit" where
  "save_html_backup outcome = (case outcome of None \<Rightarrow> Inr () | Some e \<Rightarrow> Inl e)"

datatype combo_log =
  SelectFailed | RefreshFailed error | ProcessingFailed error | Scraped scrape_log

text \<open>
  The loop of \<^verbatim>\<open>handle_year_selection_month_wise\<close> over \<^verbatim>\<open>relevant_year_options\<close>.
  An exception that no handler of the loop body catches leaves the loop: the result is
  \<open>Inl\<close>. Otherwise the result is the database and one log entry for every year.
\<close>

fun month_wise_loop ::
  "parser \<Rightarrow> string \<Rightarrow> string \<Rightarrow> (string \<times> combo_env) list \<Rightarrow> db
     \<Rightarrow> error + (db \<times> (string \<times> combo_log) list)" where
  "month_wise_loop parse x_axis_option y_axis_option [] d = Inr (d, [])"
| "month_wise_loop parse x_axis_option y_axis_option ((year_to_scrape, e) # rest) d =
     (if \<not> select_dropdown_option (select_outcome e) then
        map_sum id (\<lambda>r. (fst r, (year_to_scrape, SelectFailed) # snd r))
          (month_wise_loop parse x_axis_option y_axis_option rest d)
      else
        (case refresh_outcome e of
           Some err \<Rightarrow>
             map_sum id (\<lambda>r. (fst r, (year_to_scrape, RefreshFailed err) # snd r))
               (month_wise_loop parse x_axis_option y_axis_option rest d)
         | None \<Rightarrow>
             (case save_html_backup (backup_dir e) of
                Inl err \<Rightarrow> Inl err
              | Inr u \<Rightarrow>
                  (case py_int year_to_scrape of
                     Inl err \<Rightarrow> Inl err
                   | Inr year_val \<Rightarrow>
                       (let s = scrape_table_data_to_db parse (db_connect e) (page_found e)
                                  y_axis_option x_axis_option year_val d
                        in map_sum id (\<lambda>r. (fst r, (year_to_scrape, Scraped (snd s)) # snd r))
                             (month_wise_loop parse x_axis_option y_axis_option rest
                                (fst s)))))))"

text \<open>
  \<^verbatim>\<open>handle_year_selection_month_wise\<close>: the fetched options, each with what the browser
  does when its turn comes, are cut down to the target years.
\<close>

definition handle_year_selection_month_wise ::
  "parser \<Rightarrow> nat \<Rightarrow> string \<Rightarrow> string \<Rightarrow> (string \<times> combo_env) list \<Rightarrow> db
     \<Rightarrow> error + (db \<times> (string \<times> combo_log) list)" where
  "handle_year_selection_month_wise parse current_year x_axis_option y_axis_option
     fetched_year_options d =
     (if fetched_year_options = [] then Inr (d, [])
      else
        (let relevant_year_options =
               filter (\<lambda>opt. fst opt \<in> set (target_years current_year)) fetched_year_options
         in if relevant_year_options = [] then Inr (d, [])
            else month_wise_loop parse x_axis_option y_axis_option relevant_year_options d))"

text \<open>
  \<^verbatim>\<open>select_and_unselect_year\<close>: everything stands in one outer \<^verbatim>\<open>try\<close> with an
  \<^verbatim>\<open>except Exception\<close> branch, and the unselect block of the \<^verbatim>\<open>finally\<close> part has a
  handler of its own, so the function returns whatever happens. The second component of
  the log tells whether the year was unselected.
\<close>

definition select_and_unselect_year ::
  "parser \<Rightarrow> string \<Rightarrow> string \<Rightarrow> string \<Rightarrow> combo_env \<Rightarrow> db \<Rightarrow> db \<times> combo_log \<times> bool" where
  "select_and_unselect_year parse year_to_scrape y_axis_option x_axis_option e d =
     (let body =
            (if \<not> select_dropdown_option (select_outcome e) then (d, SelectFailed)
             else
               (case refresh_outcome e of
                  Some err \<Rightarrow> (d, RefreshFailed err)
                | None \<Rightarrow>
                    (case save_html_backup (backup_dir e) of
                       Inl err \<Rightarrow> (d, ProcessingFailed err)
                     | Inr u \<Rightarrow>
                         (case py_int year_to_scrape of
                            Inl err \<Rightarrow> (d, ProcessingFailed err)
                          | Inr year_val \<Rightarrow>
                              (let s = scrape_table_data_to_db parse (db_connect e) (page_found e)
                                         y_axis_option x_axis_option year_val d
                               in (fst s, Scraped (snd s)))))))
      in (fst body, snd body, unselect_outcome e = None))"

fun calendar_loop ::
  "parser \<Rightarrow> string \<Rightarrow> string \<Rightarrow> (string \<times> combo_env) list \<Rightarrow> db
     \<Rightarrow> db \<times> (string \<times> combo_log \<times> bool) list" where
  "calendar_loop parse x_axis_option y_axis_option [] d = (d, [])"
| "calendar_loop parse x_axis_option y_axis_option ((year_to_scrape, e) # rest) d =
     (let s = select_and_unselect_year parse year_to_scrape y_axis_option x_axis_option e d;
          r = calendar_loop parse x_axis_option y_axis_option rest (fst s)
      in (fst r, (year_to_scrape, snd s) # snd r))"

definition handle_year_selection_calendar ::
  "parser \<Rightarrow> nat \<Rightarrow> string \<Rightarrow> string \<Rightarrow> (string \<times> combo_env) list \<Rightarrow> db
     \<Rightarrow> db \<times> (string \<times> combo_log \<times> bool) list" where
  "handle_year_selection_calendar parse current_year x_axis_option y_axis_option
     fetched_year_options d =
     (if fetched_year_options = [] then (d, [])
      else
        (let relevant_year_options =
               filter (\<lambda>opt. fst opt \<in> set (target_years current_year)) fetched_year_options
         in if relevant_year_options = [] then (d, [])
            else calendar_loop parse x_axis_option y_axis_option relevant_year_options d))"

definition env_ok :: combo_env where
  "env_ok = \<lparr>select_outcome = None, refresh_outcome = None, backup_dir = None,
             page_found = Inr [year_page], db_connect = None, unselect_outcome = None\<rparr>"

definition sweep :: "(string \<times> combo_env) list" where
  "sweep =
     [(''2015'', env_ok),
      (''2021'', env_ok\<lparr>refresh_outcome := Some TimeoutException\<rparr>),
      (''2022'', env_ok\<lparr>select_outcome := Some TimeoutException\<rparr>),
      (''2023'', env_ok\<lparr>page_found := Inl TimeoutException\<rparr>),
      (''2024'', env_ok\<lparr>db_connect := Some OperationalError\<rparr>)]"

section \<open>Table selection: the serial-number rule and the size rule\<close>

lemma choose_serial:
  "find serial_rule tables = Some df \<Longrightarrow> choose_best_df best tables = Some df"
  by (induction tables arbitrary: best) (auto simp: serial_rule_def split: if_splits)

lemma find_serial_some:
  "list_ex serial_rule tables \<Longrightarrow> \<exists>df. find serial_rule tables = Some df"
  by (induction tables) auto

lemma choose_no_serial:
  "\<not> list_ex serial_rule rest \<Longrightarrow>
   (choose_best_df best rest = best \<and>
      (\<forall>d\<in>set rest. size_rule d \<longrightarrow>
          (case best of None \<Rightarrow> False | Some b \<Rightarrow> df_size d \<le> df_size b)))
   \<or> (\<exists>pre df post. rest = pre @ df # post \<and> choose_best_df best rest = Some df \<and>
         size_rule df \<and>
         (case best of None \<Rightarrow> True | Some b \<Rightarrow> df_size b < df_size df) \<and>
         (\<forall>d\<in>set pre. size_rule d \<longrightarrow> df_size d < df_size df) \<and>
         (\<forall>d\<in>set post. size_rule d \<longrightarrow> df_size d \<le> df_size df))"
proof (induction rest arbitrary: best)
  case Nil
  then show ?case by simp
next
  case (Cons a rest)
  from Cons.prems have ns: "\<not> serial_rule a" and nr: "\<not> list_ex serial_rule rest" by auto
  let ?take = "size_rule a \<and> (case best of None \<Rightarrow> True | Some b \<Rightarrow> df_size a > df_size b)"
  show ?case
  proof (cases ?take)
    case True
    then have step: "choose_best_df best (a # rest) = choose_best_df (Some a) rest"
      using ns by (simp add: serial_rule_def size_rule_def)
    from Cons.IH[OF nr, of "Some a"] show ?thesis
    proof
      assume h: "choose_best_df (Some a) rest = Some a \<and>
        (\<forall>d\<in>set rest. size_rule d \<longrightarrow>
            (case Some a of None \<Rightarrow> False | Some b \<Rightarrow> df_size d \<le> df_size b))"
      have "a # rest = [] @ a # rest \<and> choose_best_df best (a # rest) = Some a \<and> size_rule a \<and>
         (case best of None \<Rightarrow> True | Some b \<Rightarrow> df_size b < df_size a) \<and>
         (\<forall>d\<in>set []. size_rule d \<longrightarrow> df_size d < df_size a) \<and>
         (\<forall>d\<in>set rest. size_rule d \<longrightarrow> df_size d \<le> df_size a)"
        using h True step by (auto split: option.splits)
      then show ?thesis by blast
    next
      assume "\<exists>pre df post. rest = pre @ df # post \<and>
         choose_best_df (Some a) rest = Some df \<and> size_rule df \<and>
         (case Some a of None \<Rightarrow> True | Some b \<Rightarrow> df_size b < df_size df) \<and>
         (\<forall>d\<in>set pre. size_rule d \<longrightarrow> df_size d < df_size df) \<and>
         (\<forall>d\<in>set post. size_rule d \<longrightarrow> df_size d \<le> df_size df)"
      then obtain pre df post where h: "rest = pre @ df # post"
        "choose_best_df (Some a) rest = Some df"
        "size_rule df" "df_size a < df_size df"
        "\<forall>d\<in>set pre. size_rule d \<longrightarrow> df_size d < df_size df"
        "\<forall>d\<in>set post. size_rule d \<longrightarrow> df_size d \<le> df_size df" by auto
      have "a # rest = (a # pre) @ df # post \<and> choose_best_df best (a # rest) = Some df \<and>
         size_rule df \<and>
         (case best of None \<Rightarrow> True | Some b \<Rightarrow> df_size b < df_size df) \<and>
         (\<forall>d\<in>set (a # pre). size_rule d \<longrightarrow> df_size d < df_size df) \<and>
         (\<forall>d\<in>set post. size_rule d \<longrightarrow> df_size d \<le> df_size df)"
        using h True step by (auto split: option.splits)
      then show ?thesis by blast
    qed
  next
    case False
    then have step: "choose_best_df best (a # rest) = choose_best_df best rest"
      using ns by (auto simp: serial_rule_def size_rule_def split: option.splits)
    from Cons.IH[OF nr, of best] show ?thesis
    proof
      assume h: "choose_best_df best rest = best \<and>
        (\<forall>d\<in>set rest. size_rule d \<longrightarrow>
            (case best of None \<Rightarrow> False | Some b \<Rightarrow> df_size d \<le> df_size b))"
      have "choose_best_df best (a # rest) = best \<and>
        (\<forall>d\<in>set (a # rest). size_rule d \<longrightarrow>
            (case best of None \<Rightarrow> False | Some b \<Rightarrow> df_size d \<le> df_size b))"
        using h False step by (auto split: option.splits)
      then show ?thesis by blast
    next
      assume "\<exists>pre df post. rest = pre @ df # post \<and> choose_best_df best rest = Some df \<and>
         size_rule df \<and>
         (case best of None \<Rightarrow> True | Some b \<Rightarrow> df_size b < df_size df) \<and>
         (\<forall>d\<in>set pre. size_rule d \<longrightarrow> df_size d < df_size df) \<and>
         (\<forall>d\<in>set post. size_rule d \<longrightarrow> df_size d \<le> df_size df)"
      then obtain pre df post where h: "rest = pre @ df # post"
        "choose_best_df best rest = Some df"
        "size_rule df" "(case best of None \<Rightarrow> True | Some b \<Rightarrow> df_size b < df_size df)"
        "\<forall>d\<in>set pre. size_rule d \<longrightarrow> df_size d < df_size df"
        "\<forall>d\<in>set post. size_rule d \<longrightarrow> df_size d \<le> df_size df" by auto
      have "a # rest = (a # pre) @ df # post \<and> choose_best_df best (a # rest) = Some df \<and>
         size_rule df \<and>
         (case best of None \<Rightarrow> True | Some b \<Rightarrow> df_size b < df_size df) \<and>
         (\<forall>d\<in>set (a # pre). size_rule d \<longrightarrow> df_size d < df_size df) \<and>
         (\<forall>d\<in>set post. size_rule d \<longrightarrow> df_size d \<le> df_size df)"
        using h False step by (auto split: option.splits)
      then show ?thesis by blast
    qed
  qed
qed

text \<open>
  Claim C4, as the code has it. The serial-number rule accepts a label containing
  \<^verbatim>\<open>S No\<close> or \<^verbatim>\<open>S. No\<close>. When some candidate passes it with more than one row, the
  first such candidate in list order is selected, whatever the sizes of the others. When
  none does, the selected table has more than one row and more than two columns and is the
  first of the largest such tables; no table is selected when no candidate has that shape.
\<close>

theorem table_selection_serial_then_size:
  "(list_ex serial_rule tables \<longrightarrow>
      choose_best_df None tables = find serial_rule tables \<and>
      (\<exists>df. choose_best_df None tables = Some df \<and> serial_rule df)) \<and>
   (\<not> list_ex serial_rule tables \<longrightarrow>
      (choose_best_df None tables = None \<and> \<not> list_ex size_rule tables) \<or>
      (\<exists>pre df post. tables = pre @ df # post \<and> choose_best_df None tables = Some df \<and>
          size_rule df \<and>
          (\<forall>d\<in>set pre. size_rule d \<longrightarrow> df_size d < df_size df) \<and>
          (\<forall>d\<in>set post. size_rule d \<longrightarrow> df_size d \<le> df_size df)))"
proof (intro conjI impI)
  assume ex: "list_ex serial_rule tables"
  then obtain df where f: "find serial_rule tables = Some df"
    using find_serial_some by blast
  then have c: "choose_best_df None tables = Some df" by (rule choose_serial)
  from f c show "choose_best_df None tables = find serial_rule tables" by simp
  from f have "serial_rule df" by (auto simp: find_Some_iff)
  with c show "\<exists>df. choose_best_df None tables = Some df \<and> serial_rule df" by blast
next
  assume "\<not> list_ex serial_rule tables"
  from choose_no_serial[OF this, of None]
  show "(choose_best_df None tables = None \<and> \<not> list_ex size_rule tables) \<or>
      (\<exists>pre df post. tables = pre @ df # post \<and> choose_best_df None tables = Some df \<and>
          size_rule df \<and>
          (\<forall>d\<in>set pre. size_rule d \<longrightarrow> df_size d < df_size df) \<and>
          (\<forall>d\<in>set post. size_rule d \<longrightarrow> df_size d \<le> df_size df))"
    by (auto simp: list_ex_iff)
qed

theorem table_selection_serial_then_size_witness:
  "choose_best_df None [t_big, t_serial, t_small] = Some t_serial \<and>
   (choose_best_df None [t_small, t_big] = None \<and> \<not> list_ex size_rule [t_small, t_big] \<or>
    (\<exists>pre df post. [t_small, t_big] = pre @ df # post \<and>
        choose_best_df None [t_small, t_big] = Some df \<and> size_rule df \<and>
        (\<forall>d\<in>set pre. size_rule d \<longrightarrow> df_size d < df_size df) \<and>
        (\<forall>d\<in>set post. size_rule d \<longrightarrow> df_size d \<le> df_size df)))"
proof -
  have s1: "list_ex serial_rule [t_big, t_serial, t_small]"
    by (simp add: t_big_def t_serial_def serial_rule_def s_no_found_def columns_def
          shape0_def startswith_def)
  have f1: "find serial_rule [t_big, t_serial, t_small] = Some t_serial"
    by (simp add: t_big_def t_serial_def serial_rule_def s_no_found_def columns_def
          shape0_def startswith_def)
  have n2: "\<not> list_ex serial_rule [t_small, t_big]"
    by (simp add: t_big_def t_small_def serial_rule_def s_no_found_def columns_def
          shape0_def startswith_def)
  note a0 = table_selection_serial_then_size [of "[t_big, t_serial, t_small]",
                THEN conjunct1, THEN mp, OF s1, THEN conjunct1]
  have a: "choose_best_df None [t_big, t_serial, t_small] = Some t_serial"
    by (rule trans [OF a0 f1])
  note b = table_selection_serial_then_size [of "[t_small, t_big]", THEN conjunct2, THEN mp, OF n2]
  from a b show ?thesis by (rule conjI)
qed

text \<open>
  The claim as stated fails: no label of either candidate contains \<^verbatim>\<open>S No\<close>, the
  second candidate is the only one with more than one row and more than two columns, and
  the loop still stops at the first, whose label is \<^verbatim>\<open>S. No\<close>.
\<close>

theorem table_selection_counterexample:
  "choose_best_df None [t_serial_dot, t_big] = Some t_serial_dot \<and>
   \<not> label_has_S_No t_serial_dot \<and> \<not> label_has_S_No t_big \<and>
   size_rule t_big \<and> \<not> size_rule t_serial_dot"
  by (simp add: t_serial_dot_def t_big_def s_no_found_def columns_def shape0_def shape1_def
        df_size_def label_has_S_No_def size_rule_def startswith_def)

section \<open>Persistence: append or reject\<close>

lemma to_sql_append_ok:
  "constrained t \<Longrightarrow> \<not> violates key nul (content t) df \<Longrightarrow>
   to_sql key nul df (Some t) Append = Inr (Some (t\<lparr>content := content t @ df\<rparr>))"
  by (simp add: to_sql_def)

lemma to_sql_append_reject:
  "constrained t \<Longrightarrow> violates key nul (content t) df \<Longrightarrow>
   to_sql key nul df (Some t) Append = Inl IntegrityError"
  by (simp add: to_sql_def)

lemma distinct_after_append:
  assumes d: "distinct (map key old)" and v: "\<not> violates key nul old df"
  shows "distinct (map key (old @ df))"
proof -
  from v have a: "\<forall>r\<in>set df. key r \<notin> set (map key old)" and b: "distinct (map key df)"
    by (simp_all add: violates_def list_ex_iff)
  have "set (map key old) \<inter> set (map key df) = {}"
  proof (rule ccontr)
    assume "set (map key old) \<inter> set (map key df) \<noteq> {}"
    then obtain x where x1: "x \<in> set (map key old)" and x2: "x \<in> set (map key df)" by fast
    from x2 obtain r where "r \<in> set df" and "x = key r" by (fastforce simp: image_iff)
    with a x1 show False by simp
  qed
  with d b show ?thesis by (simp only: map_append distinct_append simp_thms)
qed


text \<open>
  Claim C1, as the code has it. Every call site writes with \<^verbatim>\<open>if_exists='append'\<close> into
  a table that carries the \<^verbatim>\<open>UNIQUE\<close> key. Over an open connection, a non-empty batch
  that brings no missing value, no key already in the table and no key twice is appended,
  and the keys of the table stay pairwise distinct. Any other batch is rejected as a
  whole: the table keeps exactly its prior rows, and the rejection is only logged.
\<close>

theorem insert_append_or_reject:
  assumes "constrained t" and "distinct (map key (content t))" and "df \<noteq> []"
  shows "(\<not> violates key nul (content t) df \<longrightarrow>
            insert_data_into_db None key nul df (Some t) Append
              = Inr (Some (t\<lparr>content := content t @ df\<rparr>), Inserted (length df))
            \<and> distinct (map key (content t @ df)))
       \<and> (violates key nul (content t) df \<longrightarrow>
            insert_data_into_db None key nul df (Some t) Append = Inr (Some t, IntegrityLogged))"
proof (intro conjI impI)
  assume ok: "\<not> violates key nul (content t) df"
  show "insert_data_into_db None key nul df (Some t) Append
          = Inr (Some (t\<lparr>content := content t @ df\<rparr>), Inserted (length df))"
    using assms ok by (simp add: insert_data_into_db_def to_sql_append_ok)
  show "distinct (map key (content t @ df))"
    using assms(2) ok by (rule distinct_after_append)
next
  assume "violates key nul (content t) df"
  then show "insert_data_into_db None key nul df (Some t) Append = Inr (Some t, IntegrityLogged)"
    using assms by (simp add: insert_data_into_db_def to_sql_append_reject)
qed

theorem insert_append_or_reject_witness:
  "(insert_data_into_db None annual_key annual_null [tata_50] (Some honda_table) Append
      = Inr (Some (honda_table\<lparr>content := content honda_table @ [tata_50]\<rparr>),
             Inserted (length [tata_50])) \<and>
    distinct (map annual_key (content honda_table @ [tata_50]))) \<and>
   insert_data_into_db None annual_key annual_null [honda_200, tata_50] (Some honda_table) Append
      = Inr (Some honda_table, IntegrityLogged)"
proof -
  have c: "constrained honda_table" by (simp add: honda_table_def)
  have d: "distinct (map annual_key (content honda_table))" by (simp add: honda_table_def)
  have n1: "[tata_50] \<noteq> []" and n2: "[honda_200, tata_50] \<noteq> []" by simp_all
  have ok: "\<not> violates annual_key annual_null (content honda_table) [tata_50]"
    by (simp add: violates_def honda_table_def annual_key_def annual_null_def
          honda_100_def tata_50_def)
  have bad: "violates annual_key annual_null (content honda_table) [honda_200, tata_50]"
    by (simp add: violates_def honda_table_def annual_key_def annual_null_def
          honda_100_def honda_200_def tata_50_def)
  note a = insert_append_or_reject [OF c d n1, of annual_null, THEN conjunct1, THEN mp, OF ok]
  note b = insert_append_or_reject [OF c d n2, of annual_null, THEN conjunct2, THEN mp, OF bad]
  from a b show ?thesis by (rule conjI)
qed

text \<open>
  The claim as stated fails: after a first batch has stored 100 for a key, a second batch
  with 200 for the same key leaves the table as it was. The prior value is not replaced
  and the update is dropped.
\<close>

theorem upsert_counterexample:
  "insert_data_into_db None annual_key annual_null [honda_100] (Some created) Append
     = Inr (Some \<lparr>constrained = True, content = [honda_100]\<rparr>, Inserted 1) \<and>
   insert_data_into_db None annual_key annual_null [honda_200]
       (Some \<lparr>constrained = True, content = [honda_100]\<rparr>) Append
     = Inr (Some \<lparr>constrained = True, content = [honda_100]\<rparr>, IntegrityLogged) \<and>
   annual_key honda_200 = annual_key honda_100 \<and>
   Registrations honda_200 = Num 200 \<and> Registrations honda_100 = Num 100"
  by (simp add: insert_data_into_db_def to_sql_def violates_def created_def annual_key_def
        annual_null_def honda_100_def honda_200_def)



section \<open>Normalizers and migration: shared facts\<close>

lemma py_int_2021: "py_int ''2021'' = Inr 2021"
  by (simp add: py_int_def strip_def is_space_def is_digit_def digits_val_def digit_val_def)

lemma py_int_2022: "py_int ''2022'' = Inr 2022"
  by (simp add: py_int_def strip_def is_space_def is_digit_def digits_val_def digit_val_def)

lemma extract_2021: "extract_year ''Calendar Year_2021'' = Inr 2021"
  by (simp add: extract_year_def is_digit_def py_int_2021)

lemma extract_2022: "extract_year ''Calendar Year_2022'' = Inr 2022"
  by (simp add: extract_year_def is_digit_def py_int_2022)

lemma wide_find: "find cal_year_match (columns (wide_table sno names y21 y22 tot)) = Some ''Calendar Year_2021''"
  by (simp add: wide_table_def columns_def cal_year_match_def startswith_def is_digit_def)

lemma wide_scraper:
  assumes "col_cells names = [n1, n2]" "col_cells y21 = [a1, a2]"
  shows "annual_df_to_insert (wide_table sno names y21 y22 tot) y ''Calendar Year_2021'' =
     Inr [\<lparr>Name = n1, DataType = y, Year = 2021, Registrations = a1\<rparr>,
          \<lparr>Name = n2, DataType = y, Year = 2021, Registrations = a2\<rparr>]"
  using assms
  by (simp add: annual_df_to_insert_def iloc1_def wide_table_def last_segment_def py_int_2021)

lemma wide_migrate:
  assumes "col_cells names = [n1, n2]" "col_cells y21 = [a1, a2]" "col_cells y22 = [b1, b2]"
  shows "migrate_annual_batch parse (csv, Inr (wide_table sno names y21 y22 tot)) =
     Inr (filter (\<lambda>r. Name r \<noteq> NaN \<and> positive (Registrations r))
       [\<lparr>Name = n1, DataType = df_type_of csv, Year = 2021, Registrations = fillna0 (to_numeric_coerce parse a1)\<rparr>,
        \<lparr>Name = n2, DataType = df_type_of csv, Year = 2021, Registrations = fillna0 (to_numeric_coerce parse a2)\<rparr>,
        \<lparr>Name = n1, DataType = df_type_of csv, Year = 2022, Registrations = fillna0 (to_numeric_coerce parse b1)\<rparr>,
        \<lparr>Name = n2, DataType = df_type_of csv, Year = 2022, Registrations = fillna0 (to_numeric_coerce parse b2)\<rparr>])"
proof -
  have r: "rename_name (df_type_of csv) (wide_table sno names y21 y22 tot) = wide_table sno names y21 y22 tot"
    by (simp add: rename_name_def wide_table_def startswith_def)
  have yc: "filter (\<lambda>c. cal_year_match (fst c)) (cols (wide_table sno names y21 y22 tot)) =
        [(''Calendar Year_2021'', y21), (''Calendar Year_2022'', y22)]"
    by (simp add: wide_table_def cal_year_match_def startswith_def is_digit_def)
  have nm: "''Name'' \<in> set (columns (wide_table sno names y21 y22 tot))"
       "count_list (columns (wide_table sno names y21 y22 tot)) ''Name'' = 1"
       "map_of (cols (wide_table sno names y21 y22 tot)) ''Name'' = Some names"
    by (simp_all add: wide_table_def columns_def)
  show ?thesis
    using assms
    by (simp add: migrate_annual_batch_def r yc nm melt_year_def extract_2021 extract_2022 Let_def)
qed

lemma foldl_inv:
  "P a \<Longrightarrow> (\<And>b x. x \<in> set xs \<Longrightarrow> P b \<Longrightarrow> P (f b x)) \<Longrightarrow> P (foldl f a xs)"
  by (induction xs arbitrary: a) auto

lemma coerce_numeric: "\<exists>q. fillna0 (to_numeric_coerce parse c) = Num q"
  by (cases c) (auto simp: fillna0_def to_numeric_coerce_def split: option.splits)

lemma coerce_missing: "fillna0 (to_numeric_coerce parse NaN) = Num 0"
  by (simp add: fillna0_def to_numeric_coerce_def)

lemma coerce_unparsed:
  "parse s = None \<or> parse s = Some None \<Longrightarrow> fillna0 (to_numeric_coerce parse (Txt s)) = Num 0"
  by (auto simp: fillna0_def to_numeric_coerce_def)

lemma melt_month_values:
  "map MonthlyRegistrations (melt_month parse y yr names mc) =
     map (\<lambda>c. fillna0 (to_numeric_coerce parse c)) (take (length names) (col_cells (snd mc)))"
proof -
  have "map MonthlyRegistrations (melt_month parse y yr names mc) =
        map (\<lambda>c. fillna0 (to_numeric_coerce parse c)) (map snd (zip names (col_cells (snd mc))))"
    by (simp add: melt_month_def case_prod_unfold comp_def)
  then show ?thesis by (simp add: map_snd_zip_take take_map min_def)
qed

lemma melt_month_numeric:
  "r \<in> set (melt_month parse y yr names mc) \<Longrightarrow> \<exists>q. MonthlyRegistrations r = Num q"
  using coerce_numeric by (auto simp: melt_month_def)

lemma to_sql_append_cases:
  "to_sql key nul df (Some t) Append = Inl IntegrityError \<or>
   (to_sql key nul df (Some t) Append = Inr (Some (t\<lparr>content := content t @ df\<rparr>)) \<and>
    (constrained t \<longrightarrow> \<not> violates key nul (content t) df))"
  by (simp add: to_sql_def)

lemma to_sql_missing_table:
  "to_sql key nul df None mode = Inr (Some \<lparr>constrained = False, content = df\<rparr>)"
  by (simp add: to_sql_def)

lemma migrate_annual_file_rows:
  "monthly_registrations (migrate_annual_file parse d f) = monthly_registrations d \<and>
   (migrate_annual_file parse d f = d \<or>
    (\<exists>b. migrate_annual_batch parse f = Inr b \<and>
         annual_rows (migrate_annual_file parse d f) = annual_rows d @ b))"
proof (cases "annual_registrations d")
  case None
  then show ?thesis
    by (auto simp: migrate_annual_file_def annual_rows_def to_sql_missing_table split: sum.splits)
next
  case (Some t)
  show ?thesis
  proof (cases "migrate_annual_batch parse f")
    case (Inl e)
    then show ?thesis by (simp add: migrate_annual_file_def)
  next
    case (Inr b)
    from to_sql_append_cases [of annual_key annual_null b t] Inr Some show ?thesis
      by (auto simp: migrate_annual_file_def annual_rows_def)
  qed
qed

lemma migrate_monthly_file_rows:
  "annual_registrations (migrate_monthly_file parse d f) = annual_registrations d \<and>
   (migrate_monthly_file parse d f = d \<or>
    (\<exists>b. migrate_monthly_batch parse f = Inr b \<and>
         monthly_rows (migrate_monthly_file parse d f) = monthly_rows d @ b))"
proof (cases "monthly_registrations d")
  case None
  then show ?thesis
    by (auto simp: migrate_monthly_file_def monthly_rows_def to_sql_missing_table split: sum.splits)
next
  case (Some t)
  show ?thesis
  proof (cases "migrate_monthly_batch parse f")
    case (Inl e)
    then show ?thesis by (simp add: migrate_monthly_file_def)
  next
    case (Inr b)
    from to_sql_append_cases [of monthly_key monthly_null b t] Inr Some show ?thesis
      by (auto simp: migrate_monthly_file_def monthly_rows_def)
  qed
qed

lemma migrate_annual_batch_positive:
  "migrate_annual_batch parse f = Inr b \<Longrightarrow> r \<in> set b \<Longrightarrow>
     Name r \<noteq> NaN \<and> positive (Registrations r)"
  by (auto simp: migrate_annual_batch_def Let_def split: sum.splits if_splits option.splits)

lemma migrate_monthly_batch_positive:
  "migrate_monthly_batch parse f = Inr b \<Longrightarrow> r \<in> set b \<Longrightarrow>
     mName r \<noteq> NaN \<and> positive (MonthlyRegistrations r)"
  by (auto simp: migrate_monthly_batch_def Let_def split: sum.splits if_splits option.splits)

section \<open>The Calendar Year normalizers and the zero rows of the scraper\<close>

lemma year_page_flat:
  "flatten_columns year_page = Inr \<lparr>n_rows = 2,
      cols = [(''S No_S No'', NumCol [Some 1, Some 2]),
              (''Maker_Maker'', ObjCol [Some ''HONDA'', Some ''TATA'']),
              (''Calendar Year_2021'', NumCol [Some 0, Some 5]),
              (''TOTAL_TOTAL'', NumCol [Some 0, Some 5])]\<rparr>"
  by (simp add: flatten_columns_def year_page_def columns_def is_multi_def flatten_label_def
        strip_def is_space_def)

lemma year_page_chosen: "choose_best_df None [year_page] = Some year_page"
  by (simp add: year_page_def s_no_found_def columns_def shape0_def py_repr_def startswith_def)

lemma year_page_clean:
  "clean_columns sample_parse \<lparr>n_rows = 2,
      cols = [(''S No_S No'', NumCol [Some 1, Some 2]),
              (''Maker_Maker'', ObjCol [Some ''HONDA'', Some ''TATA'']),
              (''Calendar Year_2021'', NumCol [Some 0, Some 5]),
              (''TOTAL_TOTAL'', NumCol [Some 0, Some 5])]\<rparr>
   = Inr \<lparr>n_rows = 2,
      cols = [(''S No_S No'', NumCol [Some 1, Some 2]),
              (''Maker_Maker'', ObjCol [Some ''HONDA'', Some ''TATA'']),
              (''Calendar Year_2021'', NumCol [Some 0, Some 5]),
              (''TOTAL_TOTAL'', NumCol [Some 0, Some 5])]\<rparr>"
  by (simp add: clean_columns_def columns_def clean_column_def to_numeric_ignore_def
        sample_parse_def clean_text_def astype_str_def strip_def is_space_def is_digit_def)

lemma year_page_persist:
  "persist_scraped sample_parse None \<lparr>n_rows = 2,
      cols = [(''S No_S No'', NumCol [Some 1, Some 2]),
              (''Maker_Maker'', ObjCol [Some ''HONDA'', Some ''TATA'']),
              (''Calendar Year_2021'', NumCol [Some 0, Some 5]),
              (''TOTAL_TOTAL'', NumCol [Some 0, Some 5])]\<rparr> ''Maker'' ''Calendar Year'' 2021
      (initialize_db fresh_db)
   = Inr \<lparr>annual_registrations = Some \<lparr>constrained = True, content =
              [\<lparr>Name = Txt ''HONDA'', DataType = ''Maker'', Year = 2021, Registrations = Num 0\<rparr>,
               \<lparr>Name = Txt ''TATA'', DataType = ''Maker'', Year = 2021, Registrations = Num 5\<rparr>]\<rparr>,
           monthly_registrations = Some created\<rparr>"
  by (simp add: persist_scraped_def columns_def cal_year_match_def startswith_def is_digit_def
        annual_df_to_insert_def iloc1_def last_segment_def py_int_2021
        insert_data_into_db_def to_sql_def violates_def annual_key_def annual_null_def
        initialize_db_def fresh_db_def created_def)

text \<open>
  Claim C3 as stated fails on the scraper's path: a rendered table whose 2021 cell is zero
  is written with that zero.
\<close>

theorem zero_rows_counterexample:
  "scrape_table_data_to_db sample_parse None (Inr [year_page]) ''Maker'' ''Calendar Year'' 2021
      (initialize_db fresh_db)
   = (\<lparr>annual_registrations = Some \<lparr>constrained = True, content =
              [\<lparr>Name = Txt ''HONDA'', DataType = ''Maker'', Year = 2021, Registrations = Num 0\<rparr>,
               \<lparr>Name = Txt ''TATA'', DataType = ''Maker'', Year = 2021, Registrations = Num 5\<rparr>]\<rparr>,
           monthly_registrations = Some created\<rparr>, DataSaved)"
  by (simp add: scrape_table_data_to_db_def year_page_chosen year_page_flat year_page_clean
        year_page_persist del: choose_best_df.simps)

lemma month_df_batch:
  "monthly_df_to_insert sample_parse month_df ''Maker'' 2023 =
     Inr [\<lparr>mName = Txt ''HONDA'', mDataType = ''Maker'', mYear = 2023, Month = ''JAN'', MonthlyRegistrations = Num 10\<rparr>,
          \<lparr>mName = Txt ''TATA'', mDataType = ''Maker'', mYear = 2023, Month = ''JAN'', MonthlyRegistrations = Num 0\<rparr>,
          \<lparr>mName = Txt ''HONDA'', mDataType = ''Maker'', mYear = 2023, Month = ''FEB'', MonthlyRegistrations = Num 0\<rparr>,
          \<lparr>mName = Txt ''TATA'', mDataType = ''Maker'', mYear = 2023, Month = ''FEB'', MonthlyRegistrations = Num 7\<rparr>]"
  by (simp add: monthly_df_to_insert_def month_df_def month_cols_def melt_month_def startswith_def
        fillna0_def to_numeric_coerce_def sample_parse_def is_digit_def digits_val_def digit_val_def)

lemma cy_file_calendar: "is_calendar_year_file cy_file" "\<not> is_month_wise_file cy_file"
  "df_type_of cy_file = ''Manufacturer''"
  by (simp_all add: cy_file_def is_calendar_year_file_def is_month_wise_file_def df_type_of_def
        startswith_def endswith_def)

lemma filter_all: "list_all P xs \<Longrightarrow> filter P xs = xs"
  by (induction xs) auto

text \<open>
  Claim C2, as the code has it. On the wide table with the labels \<^verbatim>\<open>S No\<close>,
  \<^verbatim>\<open>Name\<close>, \<^verbatim>\<open>Calendar Year_2021\<close>, \<^verbatim>\<open>Calendar Year_2022\<close>, \<^verbatim>\<open>TOTAL\<close> and
  two data rows, the scraper's normalizer reads the first year column only and builds
  exactly two records, both for 2021. The migration's normalizer builds one record for
  each pair of entity row and year column, the year parsed from the label, and keeps those
  with a name and a positive value: exactly four when all four cells qualify. No record
  takes its value from \<^verbatim>\<open>TOTAL\<close>.
\<close>

theorem calendar_year_normalizers:
  assumes "col_cells names = [n1, n2]" and "col_cells y21 = [a1, a2]"
    and "col_cells y22 = [b1, b2]"
  shows "find cal_year_match (columns (wide_table sno names y21 y22 tot))
           = Some ''Calendar Year_2021'' \<and>
     annual_df_to_insert (wide_table sno names y21 y22 tot) y ''Calendar Year_2021'' =
       Inr [\<lparr>Name = n1, DataType = y, Year = 2021, Registrations = a1\<rparr>,
            \<lparr>Name = n2, DataType = y, Year = 2021, Registrations = a2\<rparr>] \<and>
     migrate_annual_batch parse (csv, Inr (wide_table sno names y21 y22 tot)) =
       Inr (filter (\<lambda>r. Name r \<noteq> NaN \<and> positive (Registrations r))
         [\<lparr>Name = n1, DataType = df_type_of csv, Year = 2021,
             Registrations = fillna0 (to_numeric_coerce parse a1)\<rparr>,
          \<lparr>Name = n2, DataType = df_type_of csv, Year = 2021,
             Registrations = fillna0 (to_numeric_coerce parse a2)\<rparr>,
          \<lparr>Name = n1, DataType = df_type_of csv, Year = 2022,
             Registrations = fillna0 (to_numeric_coerce parse b1)\<rparr>,
          \<lparr>Name = n2, DataType = df_type_of csv, Year = 2022,
             Registrations = fillna0 (to_numeric_coerce parse b2)\<rparr>]) \<and>
     (list_all (\<lambda>r. Name r \<noteq> NaN \<and> positive (Registrations r))
         [\<lparr>Name = n1, DataType = df_type_of csv, Year = 2021,
             Registrations = fillna0 (to_numeric_coerce parse a1)\<rparr>,
          \<lparr>Name = n2, DataType = df_type_of csv, Year = 2021,
             Registrations = fillna0 (to_numeric_coerce parse a2)\<rparr>,
          \<lparr>Name = n1, DataType = df_type_of csv, Year = 2022,
             Registrations = fillna0 (to_numeric_coerce parse b1)\<rparr>,
          \<lparr>Name = n2, DataType = df_type_of csv, Year = 2022,
             Registrations = fillna0 (to_numeric_coerce parse b2)\<rparr>] \<longrightarrow>
      migrate_annual_batch parse (csv, Inr (wide_table sno names y21 y22 tot)) =
       Inr [\<lparr>Name = n1, DataType = df_type_of csv, Year = 2021,
               Registrations = fillna0 (to_numeric_coerce parse a1)\<rparr>,
            \<lparr>Name = n2, DataType = df_type_of csv, Year = 2021,
               Registrations = fillna0 (to_numeric_coerce parse a2)\<rparr>,
            \<lparr>Name = n1, DataType = df_type_of csv, Year = 2022,
               Registrations = fillna0 (to_numeric_coerce parse b1)\<rparr>,
            \<lparr>Name = n2, DataType = df_type_of csv, Year = 2022,
               Registrations = fillna0 (to_numeric_coerce parse b2)\<rparr>])"
proof (intro conjI impI)
  show "find cal_year_match (columns (wide_table sno names y21 y22 tot))
          = Some ''Calendar Year_2021''" by (rule wide_find)
  show "annual_df_to_insert (wide_table sno names y21 y22 tot) y ''Calendar Year_2021'' =
       Inr [\<lparr>Name = n1, DataType = y, Year = 2021, Registrations = a1\<rparr>,
            \<lparr>Name = n2, DataType = y, Year = 2021, Registrations = a2\<rparr>]"
    using assms(1,2) by (rule wide_scraper)
  note m = wide_migrate [OF assms, where parse = parse and csv = csv and sno = sno and tot = tot]
  show "migrate_annual_batch parse (csv, Inr (wide_table sno names y21 y22 tot)) =
       Inr (filter (\<lambda>r. Name r \<noteq> NaN \<and> positive (Registrations r))
         [\<lparr>Name = n1, DataType = df_type_of csv, Year = 2021,
             Registrations = fillna0 (to_numeric_coerce parse a1)\<rparr>,
          \<lparr>Name = n2, DataType = df_type_of csv, Year = 2021,
             Registrations = fillna0 (to_numeric_coerce parse a2)\<rparr>,
          \<lparr>Name = n1, DataType = df_type_of csv, Year = 2022,
             Registrations = fillna0 (to_numeric_coerce parse b1)\<rparr>,
          \<lparr>Name = n2, DataType = df_type_of csv, Year = 2022,
             Registrations = fillna0 (to_numeric_coerce parse b2)\<rparr>])"
    by (rule m)
  assume "list_all (\<lambda>r. Name r \<noteq> NaN \<and> positive (Registrations r))
         [\<lparr>Name = n1, DataType = df_type_of csv, Year = 2021,
             Registrations = fillna0 (to_numeric_coerce parse a1)\<rparr>,
          \<lparr>Name = n2, DataType = df_type_of csv, Year = 2021,
             Registrations = fillna0 (to_numeric_coerce parse a2)\<rparr>,
          \<lparr>Name = n1, DataType = df_type_of csv, Year = 2022,
             Registrations = fillna0 (to_numeric_coerce parse b1)\<rparr>,
          \<lparr>Name = n2, DataType = df_type_of csv, Year = 2022,
             Registrations = fillna0 (to_numeric_coerce parse b2)\<rparr>]"
  from filter_all [OF this] m
  show "migrate_annual_batch parse (csv, Inr (wide_table sno names y21 y22 tot)) =
       Inr [\<lparr>Name = n1, DataType = df_type_of csv, Year = 2021,
               Registrations = fillna0 (to_numeric_coerce parse a1)\<rparr>,
            \<lparr>Name = n2, DataType = df_type_of csv, Year = 2021,
               Registrations = fillna0 (to_numeric_coerce parse a2)\<rparr>,
            \<lparr>Name = n1, DataType = df_type_of csv, Year = 2022,
               Registrations = fillna0 (to_numeric_coerce parse b1)\<rparr>,
            \<lparr>Name = n2, DataType = df_type_of csv, Year = 2022,
               Registrations = fillna0 (to_numeric_coerce parse b2)\<rparr>]"
    by (simp only:)
qed

theorem calendar_year_normalizers_witness:
  "annual_df_to_insert wide_sample ''Maker'' ''Calendar Year_2021'' =
       Inr [\<lparr>Name = Txt ''HONDA'', DataType = ''Maker'', Year = 2021, Registrations = Num 10\<rparr>,
            \<lparr>Name = Txt ''TATA'', DataType = ''Maker'', Year = 2021, Registrations = Num 20\<rparr>] \<and>
   migrate_annual_batch sample_parse (cy_file, Inr wide_sample) =
       Inr [\<lparr>Name = Txt ''HONDA'', DataType = ''Manufacturer'', Year = 2021, Registrations = Num 10\<rparr>,
            \<lparr>Name = Txt ''TATA'', DataType = ''Manufacturer'', Year = 2021, Registrations = Num 20\<rparr>,
            \<lparr>Name = Txt ''HONDA'', DataType = ''Manufacturer'', Year = 2022, Registrations = Num 30\<rparr>,
            \<lparr>Name = Txt ''TATA'', DataType = ''Manufacturer'', Year = 2022, Registrations = Num 40\<rparr>]"
proof -
  have c: "col_cells (ObjCol [Some ''HONDA'', Some ''TATA'']) = [Txt ''HONDA'', Txt ''TATA'']"
       "col_cells (NumCol [Some 10, Some 20]) = [Num 10, Num 20]"
       "col_cells (NumCol [Some 30, Some 40]) = [Num 30, Num 40]"
    by simp_all
  note th = calendar_year_normalizers [OF c, where sno = "NumCol [Some 1, Some 2]"
              and tot = "NumCol [Some 40, Some 60]" and y = "''Maker''" and parse = sample_parse
              and csv = cy_file]
  from th show ?thesis
    by (simp add: wide_sample_def cy_file_calendar fillna0_def to_numeric_coerce_def positive_def)
qed

text \<open>
  The claim as stated fails on both normalizers: the scraper builds two records from a
  table with two rows and two year columns, and the migration builds three when one of the
  four cells is zero.
\<close>

theorem calendar_year_counterexample:
  "annual_df_to_insert wide_sample ''Maker'' ''Calendar Year_2021'' =
       Inr [\<lparr>Name = Txt ''HONDA'', DataType = ''Maker'', Year = 2021, Registrations = Num 10\<rparr>,
            \<lparr>Name = Txt ''TATA'', DataType = ''Maker'', Year = 2021, Registrations = Num 20\<rparr>] \<and>
   migrate_annual_batch sample_parse (cy_file, Inr wide_zero) =
       Inr [\<lparr>Name = Txt ''HONDA'', DataType = ''Manufacturer'', Year = 2021, Registrations = Num 10\<rparr>,
            \<lparr>Name = Txt ''TATA'', DataType = ''Manufacturer'', Year = 2021, Registrations = Num 20\<rparr>,
            \<lparr>Name = Txt ''HONDA'', DataType = ''Manufacturer'', Year = 2022, Registrations = Num 30\<rparr>]"
proof -
  have c: "col_cells (ObjCol [Some ''HONDA'', Some ''TATA'']) = [Txt ''HONDA'', Txt ''TATA'']"
       "col_cells (NumCol [Some 10, Some 20]) = [Num 10, Num 20]"
       "col_cells (NumCol [Some 30, Some 0]) = [Num 30, Num 0]"
    by simp_all
  have c2: "col_cells (NumCol [Some 30, Some 40]) = [Num 30, Num 40]" by simp
  from wide_scraper [OF c(1,2), where sno = "NumCol [Some 1, Some 2]"
         and ?y22.0 = "NumCol [Some 30, Some 40]" and tot = "NumCol [Some 40, Some 60]"
         and y = "''Maker''"]
       wide_migrate [OF c, where parse = sample_parse and csv = cy_file
         and sno = "NumCol [Some 1, Some 2]" and tot = "NumCol [Some 40, Some 20]"]
  show ?thesis
    by (simp add: wide_sample_def wide_zero_def cy_file_calendar fillna0_def to_numeric_coerce_def
          positive_def)
qed

section \<open>Migration: what a run leaves in the tables\<close>

lemma is_created_rows: "annual_rows (initialize_db_migrate d) = [] \<and> monthly_rows (initialize_db_migrate d) = []"
  by (simp add: initialize_db_migrate_def initialize_db_def annual_rows_def monthly_rows_def created_def)

lemma initialize_db_migrate_const:
  "initialize_db_migrate d =
     \<lparr>annual_registrations = Some created, monthly_registrations = Some created\<rparr>"
  by (simp add: initialize_db_migrate_def initialize_db_def)

lemma migrate_annual_file_monthly_rows:
  "monthly_rows (migrate_annual_file parse d f) = monthly_rows d"
  using migrate_annual_file_rows [of parse d f] by (simp add: monthly_rows_def)

lemma migrate_monthly_file_annual_rows:
  "annual_rows (migrate_monthly_file parse d f) = annual_rows d"
  using migrate_monthly_file_rows [of parse d f] by (simp add: annual_rows_def)

lemma migrate_annual_file_inv:
  assumes "\<forall>r\<in>set (annual_rows d). P r"
    and "\<And>b r. migrate_annual_batch parse f = Inr b \<Longrightarrow> r \<in> set b \<Longrightarrow> P r"
  shows "\<forall>r\<in>set (annual_rows (migrate_annual_file parse d f)). P r"
  using migrate_annual_file_rows [of parse d f] assms by auto

lemma migrate_monthly_file_inv:
  assumes "\<forall>r\<in>set (monthly_rows d). P r"
    and "\<And>b r. migrate_monthly_batch parse f = Inr b \<Longrightarrow> r \<in> set b \<Longrightarrow> P r"
  shows "\<forall>r\<in>set (monthly_rows (migrate_monthly_file parse d f)). P r"
  using migrate_monthly_file_rows [of parse d f] assms by auto

lemma migrate_csvs_annual_inv:
  assumes "\<And>f b r. f \<in> set listing \<Longrightarrow> is_calendar_year_file (fst f) \<Longrightarrow>
             migrate_annual_batch parse f = Inr b \<Longrightarrow> r \<in> set b \<Longrightarrow> P r"
  shows "\<forall>r\<in>set (annual_rows (migrate_csvs parse (Some listing) d)). P r"
proof -
  let ?d1 = "foldl (migrate_annual_file parse) (initialize_db_migrate d)
               (filter (\<lambda>f. is_calendar_year_file (fst f)) listing)"
  have a: "\<forall>r\<in>set (annual_rows ?d1). P r"
  proof (rule foldl_inv [where P = "\<lambda>x. \<forall>r\<in>set (annual_rows x). P r"])
    show "\<forall>r\<in>set (annual_rows (initialize_db_migrate d)). P r"
      by (simp add: is_created_rows)
  next
    fix b x
    assume x: "x \<in> set (filter (\<lambda>f. is_calendar_year_file (fst f)) listing)"
      and h: "\<forall>r\<in>set (annual_rows b). P r"
    show "\<forall>r\<in>set (annual_rows (migrate_annual_file parse b x)). P r"
    proof (rule migrate_annual_file_inv [OF h])
      fix bb r assume bb: "migrate_annual_batch parse x = Inr bb" and r: "r \<in> set bb"
      from x have m: "x \<in> set listing" and c: "is_calendar_year_file (fst x)" by simp_all
      from m c bb r show "P r" by (rule assms)
    qed
  qed
  have "\<forall>r\<in>set (annual_rows (foldl (migrate_monthly_file parse) ?d1
            (filter (\<lambda>f. is_month_wise_file (fst f)) listing))). P r"
  proof (rule foldl_inv [where P = "\<lambda>x. \<forall>r\<in>set (annual_rows x). P r"])
    show "\<forall>r\<in>set (annual_rows ?d1). P r" by (rule a)
  next
    fix b x
    assume "\<forall>r\<in>set (annual_rows b). P r"
    then show "\<forall>r\<in>set (annual_rows (migrate_monthly_file parse b x)). P r"
      by (simp add: migrate_monthly_file_annual_rows)
  qed
  then show ?thesis by (simp add: migrate_csvs_def Let_def)
qed

lemma migrate_csvs_monthly_inv:
  assumes "\<And>f b r. f \<in> set listing \<Longrightarrow> is_month_wise_file (fst f) \<Longrightarrow>
             migrate_monthly_batch parse f = Inr b \<Longrightarrow> r \<in> set b \<Longrightarrow> P r"
  shows "\<forall>r\<in>set (monthly_rows (migrate_csvs parse (Some listing) d)). P r"
proof -
  let ?d1 = "foldl (migrate_annual_file parse) (initialize_db_migrate d)
               (filter (\<lambda>f. is_calendar_year_file (fst f)) listing)"
  have a: "\<forall>r\<in>set (monthly_rows ?d1). P r"
  proof (rule foldl_inv [where P = "\<lambda>x. \<forall>r\<in>set (monthly_rows x). P r"])
    show "\<forall>r\<in>set (monthly_rows (initialize_db_migrate d)). P r"
      by (simp add: is_created_rows)
  next
    fix b x
    assume "\<forall>r\<in>set (monthly_rows b). P r"
    then show "\<forall>r\<in>set (monthly_rows (migrate_annual_file parse b x)). P r"
      by (simp add: migrate_annual_file_monthly_rows)
  qed
  have "\<forall>r\<in>set (monthly_rows (foldl (migrate_monthly_file parse) ?d1
            (filter (\<lambda>f. is_month_wise_file (fst f)) listing))). P r"
  proof (rule foldl_inv [where P = "\<lambda>x. \<forall>r\<in>set (monthly_rows x). P r"])
    show "\<forall>r\<in>set (monthly_rows ?d1). P r" by (rule a)
  next
    fix b x
    assume x: "x \<in> set (filter (\<lambda>f. is_month_wise_file (fst f)) listing)"
      and h: "\<forall>r\<in>set (monthly_rows b). P r"
    show "\<forall>r\<in>set (monthly_rows (migrate_monthly_file parse b x)). P r"
    proof (rule migrate_monthly_file_inv [OF h])
      fix bb r assume bb: "migrate_monthly_batch parse x = Inr bb" and r: "r \<in> set bb"
      from x have m: "x \<in> set listing" and c: "is_month_wise_file (fst x)" by simp_all
      from m c bb r show "P r" by (rule assms)
    qed
  qed
  then show ?thesis by (simp add: migrate_csvs_def Let_def)
qed

lemma migrate_csvs_prior:
  "migrate_csvs parse (Some listing) d = migrate_csvs parse (Some listing) d'"
  by (simp add: migrate_csvs_def initialize_db_migrate_const)

lemma migrate_zero_rows:
  "annual_rows (migrate_csvs sample_parse (Some [(cy_file, Inr wide_zero)]) fresh_db) =
     [\<lparr>Name = Txt ''HONDA'', DataType = ''Manufacturer'', Year = 2021, Registrations = Num 10\<rparr>,
      \<lparr>Name = Txt ''TATA'', DataType = ''Manufacturer'', Year = 2021, Registrations = Num 20\<rparr>,
      \<lparr>Name = Txt ''HONDA'', DataType = ''Manufacturer'', Year = 2022, Registrations = Num 30\<rparr>]"
proof -
  have c: "col_cells (ObjCol [Some ''HONDA'', Some ''TATA'']) = [Txt ''HONDA'', Txt ''TATA'']"
       "col_cells (NumCol [Some 10, Some 20]) = [Num 10, Num 20]"
       "col_cells (NumCol [Some 30, Some 0]) = [Num 30, Num 0]"
    by simp_all
  have b: "migrate_annual_batch sample_parse (cy_file, Inr wide_zero) =
     Inr [\<lparr>Name = Txt ''HONDA'', DataType = ''Manufacturer'', Year = 2021, Registrations = Num 10\<rparr>,
      \<lparr>Name = Txt ''TATA'', DataType = ''Manufacturer'', Year = 2021, Registrations = Num 20\<rparr>,
      \<lparr>Name = Txt ''HONDA'', DataType = ''Manufacturer'', Year = 2022, Registrations = Num 30\<rparr>]"
    using wide_migrate [OF c, where parse = sample_parse and csv = cy_file
         and sno = "NumCol [Some 1, Some 2]" and tot = "NumCol [Some 40, Some 20]"]
    by (simp add: wide_zero_def cy_file_calendar fillna0_def to_numeric_coerce_def positive_def)
  show ?thesis
    by (simp add: migrate_csvs_def initialize_db_migrate_const cy_file_calendar
          migrate_annual_file_def b to_sql_def violates_def created_def annual_key_def
          annual_null_def annual_rows_def)
qed

text \<open>
  Claim C3, as the code has it. On the migration path every batch handed to the database
  holds only rows with a positive value, so every row the tables hold after a migration is
  positive. The scraper's path applies no such filter.
\<close>

theorem migration_drops_non_positive:
  "(\<forall>b. migrate_annual_batch parse f = Inr b \<longrightarrow> (\<forall>r\<in>set b. positive (Registrations r))) \<and>
   (\<forall>b. migrate_monthly_batch parse f = Inr b \<longrightarrow>
        (\<forall>r\<in>set b. positive (MonthlyRegistrations r))) \<and>
   (\<forall>r\<in>set (annual_rows (migrate_csvs parse (Some listing) d)). positive (Registrations r)) \<and>
   (\<forall>r\<in>set (monthly_rows (migrate_csvs parse (Some listing) d)).
        positive (MonthlyRegistrations r))"
proof (intro conjI)
  show "\<forall>b. migrate_annual_batch parse f = Inr b \<longrightarrow> (\<forall>r\<in>set b. positive (Registrations r))"
    using migrate_annual_batch_positive by blast
  show "\<forall>b. migrate_monthly_batch parse f = Inr b \<longrightarrow>
        (\<forall>r\<in>set b. positive (MonthlyRegistrations r))"
    using migrate_monthly_batch_positive by blast
  show "\<forall>r\<in>set (annual_rows (migrate_csvs parse (Some listing) d)). positive (Registrations r)"
    by (rule migrate_csvs_annual_inv) (simp add: migrate_annual_batch_positive)
  show "\<forall>r\<in>set (monthly_rows (migrate_csvs parse (Some listing) d)).
        positive (MonthlyRegistrations r)"
    by (rule migrate_csvs_monthly_inv) (simp add: migrate_monthly_batch_positive)
qed

theorem migration_drops_non_positive_witness:
  "annual_rows (migrate_csvs sample_parse (Some [(cy_file, Inr wide_zero)]) fresh_db) =
     [\<lparr>Name = Txt ''HONDA'', DataType = ''Manufacturer'', Year = 2021, Registrations = Num 10\<rparr>,
      \<lparr>Name = Txt ''TATA'', DataType = ''Manufacturer'', Year = 2021, Registrations = Num 20\<rparr>,
      \<lparr>Name = Txt ''HONDA'', DataType = ''Manufacturer'', Year = 2022, Registrations = Num 30\<rparr>] \<and>
   list_all (\<lambda>r. positive (Registrations r))
     (annual_rows (migrate_csvs sample_parse (Some [(cy_file, Inr wide_zero)]) fresh_db))"
proof -
  note th = migration_drops_non_positive [where parse = sample_parse
      and listing = "[(cy_file, Inr wide_zero)]" and d = fresh_db,
      THEN conjunct2, THEN conjunct2, THEN conjunct1]
  from th have "list_all (\<lambda>r. positive (Registrations r))
     (annual_rows (migrate_csvs sample_parse (Some [(cy_file, Inr wide_zero)]) fresh_db))"
    by (simp only: list_all_iff)
  with migrate_zero_rows show ?thesis by (rule conjI)
qed

text \<open>
  Claim C9. The migration's \<^verbatim>\<open>initialize_db\<close> leaves two empty tables whatever the
  database held, so the result of a migration does not depend on the prior content; this
  holds for \<^verbatim>\<open>migrate_csvs\<close> on an existing data directory and for the script's entry
  point on any. Every row of the two tables afterwards comes from the batch of a file of
  the listing.
\<close>

theorem migration_is_destructive:
  "initialize_db_migrate d =
     \<lparr>annual_registrations = Some created, monthly_registrations = Some created\<rparr> \<and>
   migrate_csvs parse (Some listing) d = migrate_csvs parse (Some listing) d' \<and>
   migrate_main parse data_dir d = migrate_main parse data_dir d' \<and>
   (\<forall>r\<in>set (annual_rows (migrate_csvs parse (Some listing) d)).
      \<exists>f\<in>set listing. is_calendar_year_file (fst f) \<and>
        (\<exists>b. migrate_annual_batch parse f = Inr b \<and> r \<in> set b)) \<and>
   (\<forall>r\<in>set (monthly_rows (migrate_csvs parse (Some listing) d)).
      \<exists>f\<in>set listing. is_month_wise_file (fst f) \<and>
        (\<exists>b. migrate_monthly_batch parse f = Inr b \<and> r \<in> set b))"
proof (intro conjI)
  show "initialize_db_migrate d =
     \<lparr>annual_registrations = Some created, monthly_registrations = Some created\<rparr>"
    by (rule initialize_db_migrate_const)
  show "migrate_csvs parse (Some listing) d = migrate_csvs parse (Some listing) d'"
    by (rule migrate_csvs_prior)
  show "migrate_main parse data_dir d = migrate_main parse data_dir d'"
    unfolding migrate_main_def by (rule migrate_csvs_prior)
  show "\<forall>r\<in>set (annual_rows (migrate_csvs parse (Some listing) d)).
      \<exists>f\<in>set listing. is_calendar_year_file (fst f) \<and>
        (\<exists>b. migrate_annual_batch parse f = Inr b \<and> r \<in> set b)"
    by (rule migrate_csvs_annual_inv) blast
  show "\<forall>r\<in>set (monthly_rows (migrate_csvs parse (Some listing) d)).
      \<exists>f\<in>set listing. is_month_wise_file (fst f) \<and>
        (\<exists>b. migrate_monthly_batch parse f = Inr b \<and> r \<in> set b)"
    by (rule migrate_csvs_monthly_inv) blast
qed

theorem migration_is_destructive_witness:
  "annual_rows (migrate_csvs sample_parse (Some [(cy_file, Inr wide_zero)])
      \<lparr>annual_registrations = Some honda_table, monthly_registrations = None\<rparr>) =
     [\<lparr>Name = Txt ''HONDA'', DataType = ''Manufacturer'', Year = 2021, Registrations = Num 10\<rparr>,
      \<lparr>Name = Txt ''TATA'', DataType = ''Manufacturer'', Year = 2021, Registrations = Num 20\<rparr>,
      \<lparr>Name = Txt ''HONDA'', DataType = ''Manufacturer'', Year = 2022, Registrations = Num 30\<rparr>] \<and>
   content honda_table = [honda_100]"
proof -
  note th = migration_is_destructive [where parse = sample_parse
      and listing = "[(cy_file, Inr wide_zero)]"
      and d = "\<lparr>annual_registrations = Some honda_table, monthly_registrations = None\<rparr>"
      and d' = fresh_db, THEN conjunct2, THEN conjunct1]
  have "annual_rows (migrate_csvs sample_parse (Some [(cy_file, Inr wide_zero)])
      \<lparr>annual_registrations = Some honda_table, monthly_registrations = None\<rparr>) =
    annual_rows (migrate_csvs sample_parse (Some [(cy_file, Inr wide_zero)]) fresh_db)"
    by (simp only: th)
  with migrate_zero_rows show ?thesis by (simp add: honda_table_def)
qed

section \<open>The Month Wise path of the scraper\<close>

lemma length_concat_const:
  "\<forall>x\<in>set xs. length (f x) = n \<Longrightarrow> length (concat (map f xs)) = n * length xs"
  by (induction xs) auto

lemma wf_frame_col:
  "wf_frame df \<Longrightarrow> c \<in> set (cols df) \<Longrightarrow> length (col_cells (snd c)) = n_rows df"
  by (simp add: wf_frame_def list_all_iff)

lemma monthly_df_to_insert_Inr:
  assumes "monthly_df_to_insert parse data_df y yr = Inr batch"
  obtains name_col where "map_of (cols data_df) ''Name'' = Some name_col"
    and "batch = concat (map (melt_month parse y yr (col_cells name_col)) (month_cols data_df))"
  using assms by (auto simp: monthly_df_to_insert_def split: option.splits)

lemma month_cols_subset: "c \<in> set (month_cols df) \<Longrightarrow> c \<in> set (cols df)"
  by (simp add: month_cols_def)

lemma length_melt_month:
  "length (melt_month parse y yr names mc) = min (length names) (length (col_cells (snd mc)))"
  by (simp add: melt_month_def)

text \<open>
  Claim C10. Whenever the Month Wise branch builds its frame, every value in it is a
  number; the values are, month column after month column and row after row, the cells of
  the month columns with every missing or unparseable cell turned into 0, so there is one
  record for each cell and none is skipped; and when the insert, over an open connection,
  meets no constraint violation, exactly these records are appended to the monthly table.
\<close>

theorem month_wise_cells_coerced_to_zero:
  assumes "monthly_df_to_insert parse data_df y_axis_option year_val = Inr batch"
  shows "(\<forall>r\<in>set batch. \<exists>q. MonthlyRegistrations r = Num q) \<and>
     (wf_frame data_df \<longrightarrow>
        length batch = n_rows data_df * length (month_cols data_df) \<and>
        map MonthlyRegistrations batch =
          concat (map (\<lambda>mc. map (\<lambda>c. fillna0 (to_numeric_coerce parse c)) (col_cells (snd mc)))
                    (month_cols data_df))) \<and>
     fillna0 (to_numeric_coerce parse NaN) = Num 0 \<and>
     (\<forall>s. parse s = None \<or> parse s = Some None \<longrightarrow>
          fillna0 (to_numeric_coerce parse (Txt s)) = Num 0) \<and>
     (\<forall>d t. monthly_registrations d = Some t \<and> constrained t \<and> batch \<noteq> [] \<and>
            \<not> violates monthly_key monthly_null (content t) batch \<longrightarrow>
        persist_scraped parse None data_df y_axis_option ''Month Wise'' year_val d =
          Inr (d\<lparr>monthly_registrations := Some (t\<lparr>content := content t @ batch\<rparr>)\<rparr>))"
proof -
  from assms obtain name_col where nc: "map_of (cols data_df) ''Name'' = Some name_col"
    and b: "batch = concat (map (melt_month parse y_axis_option year_val (col_cells name_col))
                              (month_cols data_df))"
    by (rule monthly_df_to_insert_Inr)
  have p1: "\<forall>r\<in>set batch. \<exists>q. MonthlyRegistrations r = Num q"
    unfolding b using melt_month_numeric by fastforce
  have p2: "length batch = n_rows data_df * length (month_cols data_df) \<and>
        map MonthlyRegistrations batch =
          concat (map (\<lambda>mc. map (\<lambda>c. fillna0 (to_numeric_coerce parse c)) (col_cells (snd mc)))
                    (month_cols data_df))" if wf: "wf_frame data_df"
  proof
    from nc have "(''Name'', name_col) \<in> set (cols data_df)" by (rule map_of_SomeD)
    from wf_frame_col [OF wf this] have ln: "length (col_cells name_col) = n_rows data_df"
      by simp
    have lm: "\<forall>mc\<in>set (month_cols data_df). length (col_cells (snd mc)) = n_rows data_df"
      using wf_frame_col [OF wf] month_cols_subset by blast
    then have "\<forall>mc\<in>set (month_cols data_df).
        length (melt_month parse y_axis_option year_val (col_cells name_col) mc) = n_rows data_df"
      by (simp add: length_melt_month ln)
    then show "length batch = n_rows data_df * length (month_cols data_df)"
      unfolding b by (rule length_concat_const)
    have "map MonthlyRegistrations batch =
        concat (map (\<lambda>mc. map (\<lambda>c. fillna0 (to_numeric_coerce parse c))
                        (take (length (col_cells name_col)) (col_cells (snd mc))))
                  (month_cols data_df))"
      unfolding b by (simp add: map_concat comp_def melt_month_values)
    also have "\<dots> = concat (map (\<lambda>mc. map (\<lambda>c. fillna0 (to_numeric_coerce parse c))
                        (col_cells (snd mc))) (month_cols data_df))"
      using lm ln by (auto intro!: arg_cong [where f = concat] map_cong)
    finally show "map MonthlyRegistrations batch =
          concat (map (\<lambda>mc. map (\<lambda>c. fillna0 (to_numeric_coerce parse c)) (col_cells (snd mc)))
                    (month_cols data_df))" .
  qed
  have p5: "persist_scraped parse None data_df y_axis_option ''Month Wise'' year_val d =
          Inr (d\<lparr>monthly_registrations := Some (t\<lparr>content := content t @ batch\<rparr>)\<rparr>)"
    if h: "monthly_registrations d = Some t \<and> constrained t \<and> batch \<noteq> [] \<and>
            \<not> violates monthly_key monthly_null (content t) batch" for d t
  proof -
    from nc have "(''Name'', name_col) \<in> set (cols data_df)" by (rule map_of_SomeD)
    then have n: "''Name'' \<in> set (columns data_df)" by (force simp: columns_def)
    from h b have m: "month_cols data_df \<noteq> []" by auto
    from h have ts: "to_sql monthly_key monthly_null batch (Some t) Append =
        Inr (Some (t\<lparr>content := content t @ batch\<rparr>))"
      by (simp add: to_sql_append_ok)
    show ?thesis
      using n m h assms ts by (simp add: persist_scraped_def insert_data_into_db_def)
  qed
  from p1 p2 p5 show ?thesis
    by (simp add: coerce_missing coerce_unparsed)
qed

theorem month_wise_cells_coerced_to_zero_witness:
  "map MonthlyRegistrations
     [\<lparr>mName = Txt ''HONDA'', mDataType = ''Maker'', mYear = 2023, Month = ''JAN'',
         MonthlyRegistrations = Num 10\<rparr>,
      \<lparr>mName = Txt ''TATA'', mDataType = ''Maker'', mYear = 2023, Month = ''JAN'',
         MonthlyRegistrations = Num 0\<rparr>,
      \<lparr>mName = Txt ''HONDA'', mDataType = ''Maker'', mYear = 2023, Month = ''FEB'',
         MonthlyRegistrations = Num 0\<rparr>,
      \<lparr>mName = Txt ''TATA'', mDataType = ''Maker'', mYear = 2023, Month = ''FEB'',
         MonthlyRegistrations = Num 7\<rparr>]
   = concat (map (\<lambda>mc. map (\<lambda>c. fillna0 (to_numeric_coerce sample_parse c)) (col_cells (snd mc)))
               (month_cols month_df)) \<and>
   concat (map (\<lambda>mc. map (\<lambda>c. fillna0 (to_numeric_coerce sample_parse c)) (col_cells (snd mc)))
               (month_cols month_df)) = [Num 10, Num 0, Num 0, Num 7]"
proof -
  have wf: "wf_frame month_df" by (simp add: wf_frame_def month_df_def)
  note th = month_wise_cells_coerced_to_zero [OF month_df_batch, THEN conjunct2, THEN conjunct1,
              THEN mp, OF wf, THEN conjunct2]
  have e: "concat (map (\<lambda>mc. map (\<lambda>c. fillna0 (to_numeric_coerce sample_parse c))
               (col_cells (snd mc))) (month_cols month_df)) = [Num 10, Num 0, Num 0, Num 7]"
    by (simp add: month_df_def month_cols_def startswith_def fillna0_def to_numeric_coerce_def
          sample_parse_def is_digit_def digits_val_def digit_val_def)
  from th e show ?thesis by (rule conjI)
qed

section \<open>Uniqueness of the natural keys\<close>

lemma insert_keeps_ok:
  assumes "tbl \<noteq> None" and "table_ok key tbl"
    and "insert_data_into_db connect key nul df tbl Append = Inr r"
  shows "fst r \<noteq> None \<and> table_ok key (fst r)"
proof -
  from assms(1) obtain t where t: "tbl = Some t" by auto
  with assms(2) have c: "constrained t" and d: "distinct (map key (content t))"
    by (simp_all add: table_ok_def)
  show ?thesis
  proof (cases "df = []")
    case True
    with assms show ?thesis by (auto simp: insert_data_into_db_def)
  next
    case False
    show ?thesis
    proof (cases "violates key nul (content t) df")
      case True
      with False c t assms show ?thesis
        by (auto simp: insert_data_into_db_def to_sql_append_reject split: option.splits)
    next
      case nv: False
      from distinct_after_append [OF d nv] False c t assms nv show ?thesis
        by (auto simp: insert_data_into_db_def to_sql_append_ok table_ok_def
                 split: option.splits)
    qed
  qed
qed

lemma persist_scraped_ready:
  assumes "db_ready d" and "persist_scraped parse connect data_df y x yr d = Inr d'"
  shows "db_ready d'"
proof -
  from assms(1) have a: "annual_registrations d \<noteq> None" "table_ok annual_key (annual_registrations d)"
    and m: "monthly_registrations d \<noteq> None" "table_ok monthly_key (monthly_registrations d)"
    by (simp_all add: db_ready_def db_ok_def)
  note ia = insert_keeps_ok [OF a]
  note im = insert_keeps_ok [OF m]
  from assms(2) a m ia im show ?thesis
    by (auto simp: persist_scraped_def db_ready_def db_ok_def
             split: if_splits option.splits sum.splits)
qed

lemma scrape_ready:
  "db_ready d \<Longrightarrow> db_ready (fst (scrape_table_data_to_db parse connect page y x yr d))"
  by (auto simp: scrape_table_data_to_db_def persist_scraped_ready
           split: sum.splits option.splits)

lemma initialize_db_ready: "db_ok d \<Longrightarrow> db_ready (initialize_db d)"
  by (auto simp: db_ok_def db_ready_def initialize_db_def table_ok_def created_def
           split: option.splits)

lemma scraper_run_ready: "db_ok d \<Longrightarrow> db_ready (scraper_run parse calls d)"
  unfolding scraper_run_def
proof (rule foldl_inv [where P = db_ready])
  assume "db_ok d" then show "db_ready (initialize_db d)" by (rule initialize_db_ready)
next
  fix b x assume "db_ready b"
  then show "db_ready (scrape_call parse b x)"
    by (cases x) (simp add: scrape_call_def scrape_ready)
qed

lemma to_sql_keeps_ok:
  assumes "table_ok key (Some t)" and "to_sql key nul df (Some t) Append = Inr tbl'"
  shows "tbl' \<noteq> None \<and> table_ok key tbl'"
proof -
  from assms(1) have c: "constrained t" and d: "distinct (map key (content t))"
    by (simp_all add: table_ok_def)
  from to_sql_append_cases [of key nul df t] assms(2) c
  have nv: "\<not> violates key nul (content t) df"
    and e: "tbl' = Some (t\<lparr>content := content t @ df\<rparr>)" by auto
  from distinct_after_append [OF d nv] c e show ?thesis by (simp add: table_ok_def)
qed

lemma migrate_annual_file_ready: "db_ready d \<Longrightarrow> db_ready (migrate_annual_file parse d f)"
proof -
  assume r: "db_ready d"
  then obtain t where t: "annual_registrations d = Some t" by (auto simp: db_ready_def)
  with r have ok: "table_ok annual_key (Some t)" by (simp add: db_ready_def db_ok_def)
  note k = to_sql_keeps_ok [OF ok]
  from r t k show ?thesis
    by (auto simp: migrate_annual_file_def db_ready_def db_ok_def split: sum.splits)
qed

lemma migrate_monthly_file_ready: "db_ready d \<Longrightarrow> db_ready (migrate_monthly_file parse d f)"
proof -
  assume r: "db_ready d"
  then obtain t where t: "monthly_registrations d = Some t" by (auto simp: db_ready_def)
  with r have ok: "table_ok monthly_key (Some t)" by (simp add: db_ready_def db_ok_def)
  note k = to_sql_keeps_ok [OF ok]
  from r t k show ?thesis
    by (auto simp: migrate_monthly_file_def db_ready_def db_ok_def split: sum.splits)
qed

lemma migrate_csvs_ready: "db_ready (migrate_csvs parse (Some listing) d)"
proof -
  have i: "db_ready (initialize_db_migrate d)"
    by (simp add: initialize_db_migrate_const db_ready_def db_ok_def table_ok_def created_def)
  have a: "db_ready (foldl (migrate_annual_file parse) (initialize_db_migrate d)
             (filter (\<lambda>f. is_calendar_year_file (fst f)) listing))"
    by (rule foldl_inv [where P = db_ready, OF i]) (rule migrate_annual_file_ready)
  have "db_ready (foldl (migrate_monthly_file parse)
           (foldl (migrate_annual_file parse) (initialize_db_migrate d)
             (filter (\<lambda>f. is_calendar_year_file (fst f)) listing))
           (filter (\<lambda>f. is_month_wise_file (fst f)) listing))"
    by (rule foldl_inv [where P = db_ready, OF a]) (rule migrate_monthly_file_ready)
  then show ?thesis by (simp add: migrate_csvs_def Let_def)
qed

lemma reachable_ok: "reachable parse d \<Longrightarrow> db_ok d"
proof (induction rule: reachable.induct)
  case new_file
  show ?case by (simp add: db_ok_def table_ok_def fresh_db_def)
next
  case (scraper d calls)
  from scraper_run_ready [OF scraper.IH] show ?case by (simp add: db_ready_def)
next
  case (migration d data_dir)
  from migrate_csvs_ready show ?case by (simp add: migrate_main_def db_ready_def)
qed

text \<open>
  Claim C5. In every database state that scraper runs and migrations can produce from a
  new database file, no two rows of \<^verbatim>\<open>annual_registrations\<close> share
  (Name, DataType, Year) and no two rows of \<^verbatim>\<open>monthly_registrations\<close> share
  (Name, DataType, Year, Month).
\<close>

theorem natural_keys_stay_unique:
  assumes "reachable parse d"
  shows "unique_keys annual_key (annual_registrations d) \<and>
         unique_keys monthly_key (monthly_registrations d)"
  using reachable_ok [OF assms]
  by (auto simp: db_ok_def table_ok_def unique_keys_def split: option.splits)

theorem natural_keys_stay_unique_witness:
  "unique_keys annual_key (annual_registrations (scraper_run sample_parse two_calls fresh_db)) \<and>
   unique_keys monthly_key (monthly_registrations (scraper_run sample_parse two_calls fresh_db))"
  by (rule natural_keys_stay_unique [OF reachable.scraper [OF reachable.new_file]])

section \<open>Growth computation of the dashboard\<close>





text \<open>
  After a year with the sum 0 the change of a year with a sum other than 0 is infinite,
  and the result is what the library's rounding makes of the column.
\<close>

lemma zero_baseline_growth:
  "infinite_change (map (\<lambda>r. ((MappedName r, obs_Year r), obs_Registrations r)) zero_baseline) \<and>
   calculate_yoy_growth (Inl TypeError) zero_baseline = Inl TypeError \<and>
   calculate_yoy_growth (Inr id) zero_baseline =
     Inr [\<lparr>grp = ''A'', period = 2021, total = 0, prev = None, growth = None\<rparr>,
          \<lparr>grp = ''A'', period = 2022, total = 5, prev = Some 0, growth = None\<rparr>]"
  by (simp add: calculate_yoy_growth_def zero_baseline_def growth_table_def growth_rows_def
        infinite_change_def groupby_sum_def pct_change_def rounded_def)

























section \<open>Harvest Orchestrator: the year loops\<close>

lemma digit_char_is_digit: "k < 10 \<Longrightarrow> is_digit (''0123456789'' ! k)"
  unfolding is_digit_def by (rule nth_mem) simp

lemma digit_char_val: "k < 10 \<Longrightarrow> digit_val (''0123456789'' ! k) = k"
proof -
  assume "k < 10"
  then have "k \<in> {0,1,2,3,4,5,6,7,8,9}" by auto
  then show ?thesis by (auto simp: digit_val_def)
qed

lemma str_nat_digits: "list_all is_digit (str_nat n) \<and> str_nat n \<noteq> []"
proof (induction n rule: str_nat.induct)
  case (1 n)
  show ?case
  proof (cases "n < 10")
    case True
    then show ?thesis by (subst str_nat.simps, subst str_nat.simps) (simp add: digit_char_is_digit)
  next
    case False
    with 1 have "list_all is_digit (str_nat (n div 10))" by simp
    moreover have "is_digit (''0123456789'' ! (n mod 10))" by (rule digit_char_is_digit) simp
    ultimately show ?thesis using False
      by (subst str_nat.simps, subst (2) str_nat.simps) simp
  qed
qed

lemma digits_val_snoc: "digits_val (s @ [c]) = 10 * digits_val s + digit_val c"
  by (simp add: digits_val_def)

lemma digits_val_str_nat: "digits_val (str_nat n) = n"
proof (induction n rule: str_nat.induct)
  case (1 n)
  show ?case
  proof (cases "n < 10")
    case True
    then show ?thesis by (subst str_nat.simps) (simp add: digits_val_def digit_char_val)
  next
    case False
    with 1 have "digits_val (str_nat (n div 10)) = n div 10" by simp
    moreover have "digit_val (''0123456789'' ! (n mod 10)) = n mod 10"
      by (rule digit_char_val) simp
    ultimately show ?thesis using False
      by (subst str_nat.simps) (simp add: digits_val_snoc)
  qed
qed

lemma digit_not_space: "is_digit c \<Longrightarrow> \<not> is_space c"
  by (auto simp: is_digit_def is_space_def)

lemma strip_digits:
  assumes "list_all is_digit s"
  shows "strip s = s"
proof (cases "s = []")
  case True
  then show ?thesis by (simp add: strip_def)
next
  case False
  then have "hd s \<in> set s" and "last s \<in> set s" by simp_all
  with assms have h: "is_digit (hd s)" and l: "is_digit (last s)"
    by (simp_all add: list_all_iff)
  from h have a: "dropWhile is_space s = s"
    by (simp add: dropWhile_eq_self_iff digit_not_space)
  from False have "hd (rev s) = last s" by (simp add: hd_rev)
  with l have "dropWhile is_space (rev s) = rev s"
    by (simp add: dropWhile_eq_self_iff digit_not_space)
  with a show ?thesis by (simp add: strip_def)
qed

lemma py_int_str_nat: "py_int (str_nat n) = Inr (int n)"
proof -
  from str_nat_digits [of n] have d: "list_all is_digit (str_nat n)" and ne: "str_nat n \<noteq> []"
    by simp_all
  from ne obtain c cs where cs: "str_nat n = c # cs" by (cases "str_nat n") auto
  with d have "is_digit c" by simp
  then have c: "c \<noteq> CHR ''-''" "c \<noteq> CHR ''+''" by (auto simp: is_digit_def)
  from d have "strip (str_nat n) = str_nat n" by (rule strip_digits)
  with cs c d show ?thesis
    using digits_val_str_nat [of n] by (simp add: py_int_def)
qed

lemma py_int_target:
  "y \<in> set (target_years current_year) \<Longrightarrow> \<exists>k. py_int y = Inr k"
  by (auto simp: target_years_def py_int_str_nat)

lemma month_wise_loop_all:
  assumes "\<forall>c\<in>set combos. backup_dir (snd c) = None"
    and "\<forall>c\<in>set combos. \<exists>k. py_int (fst c) = Inr k"
  shows "\<exists>d' lg. month_wise_loop parse x y combos d = Inr (d', lg) \<and>
                 map fst lg = map fst combos"
  using assms
proof (induction combos arbitrary: d)
  case Nil
  show ?case by simp
next
  case (Cons c combos)
  obtain yr e where c: "c = (yr, e)" by (cases c)
  from Cons.prems c have b: "backup_dir e = None" by simp
  from Cons.prems c obtain k where k: "py_int yr = Inr k" by auto
  from Cons.prems have r: "\<forall>c\<in>set combos. backup_dir (snd c) = None"
    "\<forall>c\<in>set combos. \<exists>k. py_int (fst c) = Inr k" by simp_all
  note ih = Cons.IH [OF r]
  show ?case
  proof (cases "select_dropdown_option (select_outcome e)")
    case False
    from ih [of d] obtain d' lg where
      "month_wise_loop parse x y combos d = Inr (d', lg)" "map fst lg = map fst combos" by blast
    with False c show ?thesis by simp
  next
    case True
    show ?thesis
    proof (cases "refresh_outcome e")
      case (Some err)
      from ih [of d] obtain d' lg where
        "month_wise_loop parse x y combos d = Inr (d', lg)" "map fst lg = map fst combos"
        by blast
      with True Some c show ?thesis by simp
    next
      case None
      from ih [of "fst (scrape_table_data_to_db parse (db_connect e) (page_found e) y x k d)"] obtain d' lg where
        "month_wise_loop parse x y combos
           (fst (scrape_table_data_to_db parse (db_connect e) (page_found e) y x k d))
           = Inr (d', lg)" "map fst lg = map fst combos" by blast
      with True None c b k show ?thesis by (simp add: save_html_backup_def Let_def)
    qed
  qed
qed

lemma calendar_loop_all:
  "map fst (snd (calendar_loop parse x y combos d)) = map fst combos"
  by (induction combos arbitrary: d) (auto simp: Let_def)

lemma relevant_years:
  "map fst (filter (\<lambda>opt. fst opt \<in> set ys) fetched) = filter (\<lambda>opt. opt \<in> set ys) (map fst fetched)"
  by (simp add: filter_map comp_def)

lemma sweep_relevant:
  "filter (\<lambda>opt. opt \<in> set (target_years 2024)) (map fst sweep) =
     [''2021'', ''2022'', ''2023'', ''2024'']"
  by code_simp

text \<open>
  Claim C7. Whatever the browser does, both year loops give every relevant year its turn,
  in the order of the fetched options. In the month-wise loop a failed selection or a
  failed refresh wait goes on to the next year with the database as it was, and a failure
  inside \<^verbatim>\<open>scrape_table_data_to_db\<close> ends as a logged \<open>ScrapeFailed\<close>; the one condition
  is that creating the backup directory does not fail, which is no navigation, refresh or
  extraction failure. In the calendar loop \<^verbatim>\<open>select_and_unselect_year\<close> always returns,
  and a failed selection or refresh leaves the database untouched.
\<close>

theorem failures_do_not_stop_the_sweep:
  "((\<forall>c\<in>set fetched. backup_dir (snd c) = None) \<longrightarrow>
      (\<exists>d' lg. handle_year_selection_month_wise parse current_year x y fetched d = Inr (d', lg) \<and>
          map fst lg = filter (\<lambda>opt. opt \<in> set (target_years current_year)) (map fst fetched))) \<and>
   map fst (snd (handle_year_selection_calendar parse current_year x y fetched d)) =
     filter (\<lambda>opt. opt \<in> set (target_years current_year)) (map fst fetched) \<and>
   (select_outcome e \<noteq> None \<longrightarrow>
      month_wise_loop parse x y ((yr, e) # rest) d =
        map_sum id (\<lambda>r. (fst r, (yr, SelectFailed) # snd r)) (month_wise_loop parse x y rest d) \<and>
      fst (select_and_unselect_year parse yr y x e d) = d) \<and>
   (select_outcome e = None \<and> refresh_outcome e = Some err \<longrightarrow>
      month_wise_loop parse x y ((yr, e) # rest) d =
        map_sum id (\<lambda>r. (fst r, (yr, RefreshFailed err) # snd r))
          (month_wise_loop parse x y rest d) \<and>
      fst (select_and_unselect_year parse yr y x e d) = d) \<and>
   scrape_table_data_to_db parse connect (Inl err) y x year_val d = (d, ScrapeFailed err)"
proof (intro conjI impI)
  assume b: "\<forall>c\<in>set fetched. backup_dir (snd c) = None"
  let ?rel = "filter (\<lambda>opt. fst opt \<in> set (target_years current_year)) fetched"
  from b have b': "\<forall>c\<in>set ?rel. backup_dir (snd c) = None" by simp
  have k: "\<forall>c\<in>set ?rel. \<exists>k. py_int (fst c) = Inr k"
  proof
    fix c assume "c \<in> set ?rel"
    then have "fst c \<in> set (target_years current_year)" by simp
    then show "\<exists>k. py_int (fst c) = Inr k" by (rule py_int_target)
  qed
  from month_wise_loop_all [OF b' k, of parse x y d] obtain d' lg where
    l: "month_wise_loop parse x y ?rel d = Inr (d', lg)" "map fst lg = map fst ?rel" by blast
  show "\<exists>d' lg. handle_year_selection_month_wise parse current_year x y fetched d = Inr (d', lg) \<and>
          map fst lg = filter (\<lambda>opt. opt \<in> set (target_years current_year)) (map fst fetched)"
  proof (cases "?rel = []")
    case True
    then have "filter (\<lambda>opt. opt \<in> set (target_years current_year)) (map fst fetched) = []"
      using relevant_years [of "target_years current_year" fetched] by simp
    with True show ?thesis by (simp add: handle_year_selection_month_wise_def)
  next
    case False
    then have "fetched \<noteq> []" by auto
    with False l show ?thesis
      by (simp add: handle_year_selection_month_wise_def relevant_years)
  qed
next
  let ?rel = "filter (\<lambda>opt. fst opt \<in> set (target_years current_year)) fetched"
  show "map fst (snd (handle_year_selection_calendar parse current_year x y fetched d)) =
     filter (\<lambda>opt. opt \<in> set (target_years current_year)) (map fst fetched)"
  proof (cases "?rel = []")
    case True
    then have "filter (\<lambda>opt. opt \<in> set (target_years current_year)) (map fst fetched) = []"
      using relevant_years [of "target_years current_year" fetched] by simp
    with True show ?thesis by (simp add: handle_year_selection_calendar_def)
  next
    case False
    then have "fetched \<noteq> []" by auto
    with False show ?thesis
      by (simp add: handle_year_selection_calendar_def calendar_loop_all relevant_years)
  qed
next
  assume "select_outcome e \<noteq> None"
  then show "month_wise_loop parse x y ((yr, e) # rest) d =
        map_sum id (\<lambda>r. (fst r, (yr, SelectFailed) # snd r)) (month_wise_loop parse x y rest d)"
    and "fst (select_and_unselect_year parse yr y x e d) = d"
    by (simp_all add: select_dropdown_option_def select_and_unselect_year_def)
next
  assume "select_outcome e = None \<and> refresh_outcome e = Some err"
  then show "month_wise_loop parse x y ((yr, e) # rest) d =
        map_sum id (\<lambda>r. (fst r, (yr, RefreshFailed err) # snd r))
          (month_wise_loop parse x y rest d)"
    and "fst (select_and_unselect_year parse yr y x e d) = d"
    by (simp_all add: select_dropdown_option_def select_and_unselect_year_def)
next
  show "scrape_table_data_to_db parse connect (Inl err) y x year_val d = (d, ScrapeFailed err)"
    by (simp add: scrape_table_data_to_db_def)
qed

theorem failures_do_not_stop_the_sweep_witness:
  "\<exists>d' lg. handle_year_selection_month_wise sample_parse 2024 ''Month Wise'' ''Maker'' sweep
              (initialize_db fresh_db) = Inr (d', lg) \<and>
           map fst lg = [''2021'', ''2022'', ''2023'', ''2024'']"
proof -
  have b: "\<forall>c\<in>set sweep. backup_dir (snd c) = None" by (simp add: sweep_def env_ok_def)
  note th = failures_do_not_stop_the_sweep [where fetched = sweep and current_year = 2024
      and parse = sample_parse and x = "''Month Wise''" and y = "''Maker''"
      and d = "initialize_db fresh_db", THEN conjunct1, THEN mp, OF b]
  from th show ?thesis by (simp only: sweep_relevant)
qed

end
